theory Spec2Isabelle
  imports Complex_Main
begin

section \<open>Python values, errors and arithmetic\<close>

text \<open>
  The calculation engine of \<^verbatim>\<open>mortgage_agent/tools.py\<close> is embedded function by
  function. Python \<^verbatim>\<open>int\<close> is \<^typ>\<open>int\<close>, \<^verbatim>\<open>str\<close> is \<^typ>\<open>string\<close> (ASCII;
  glyphs outside ASCII are left out of message literals), and every \<^verbatim>\<open>dict\<close> the
  code returns is an association list in the order the code writes its keys. An exception
  is a value of \<open>py_error\<close>, and a function that can raise returns \<open>py_error + 'a\<close>.

  A Python \<^verbatim>\<open>float\<close> is a real number. The functions are embedded over exact
  arithmetic: the rounding of each binary64 result is not applied, so an amount of the
  embedding and the amount the interpreter prints can differ in the last cent. The
  statements below that speak of amounts therefore carry a tolerance wide enough for that
  rounding, and where a claim turns on the rounding itself (the debt-to-income ratio) the
  function is given a second time with every float result rounded to binary64
  (\<open>binary64\<close> below). \<^verbatim>\<open>math.pow\<close> raises \<^verbatim>\<open>OverflowError\<close> when the power leaves the
  range of a double; the other operations return \<^verbatim>\<open>inf\<close> or \<^verbatim>\<open>nan\<close> there, which
  are not values of the embedding, so statements about amounts bound their inputs.
\<close>

datatype py_error =
  ZeroDivisionError | ValueError | OverflowError | TypeError | KeyError string

datatype pyval =
    VNone
  | VBool bool
  | VInt int
  | VFloat real
  | VStr string
  | VList "pyval list"
  | VDict "(string \<times> pyval) list"

type_synonym pydict = "(string \<times> pyval) list"

definition then_do :: "py_error + 'a \<Rightarrow> ('a \<Rightarrow> py_error + 'b) \<Rightarrow> py_error + 'b" where
  "then_do m f = (case m of Inl e \<Rightarrow> Inl e | Inr v \<Rightarrow> f v)"

text \<open>\<^verbatim>\<open>d[k]\<close>: the first binding of the key, \<^verbatim>\<open>KeyError\<close> when there is none.\<close>

definition getitem :: "pydict \<Rightarrow> string \<Rightarrow> py_error + pyval" where
  "getitem d k = (case map_of d k of None \<Rightarrow> Inl (KeyError k) | Some v \<Rightarrow> Inr v)"

text \<open>The number held by a value, where arithmetic, comparison or a float format needs one.\<close>

definition num_of :: "pyval \<Rightarrow> py_error + real" where
  "num_of v = (case v of
       VInt i \<Rightarrow> Inr (of_int i)
     | VFloat x \<Rightarrow> Inr x
     | VBool b \<Rightarrow> Inr (if b then 1 else 0)
     | _ \<Rightarrow> Inl TypeError)"

text \<open>\<^verbatim>\<open>a / b\<close> on numbers raises on a zero divisor.\<close>

definition py_div :: "real \<Rightarrow> real \<Rightarrow> py_error + real" where
  "py_div a b = (if b = 0 then Inl ZeroDivisionError else Inr (a / b))"

text \<open>
  \<^verbatim>\<open>math.pow(x, n)\<close> with an integer exponent: a zero base with a negative exponent
  raises \<^verbatim>\<open>ValueError\<close>, and a power that a double cannot hold raises
  \<^verbatim>\<open>OverflowError\<close>. \<open>double_overflow\<close> is the least magnitude that rounds to infinity,
  half a unit in the last place above the largest double.
\<close>

definition double_overflow :: real where
  "double_overflow = 2 ^ 1024 - 2 ^ 970"

definition math_pow :: "real \<Rightarrow> int \<Rightarrow> py_error + real" where
  "math_pow x n =
     (if x = 0 \<and> n < 0 then Inl ValueError
      else if double_overflow \<le> \<bar>power_int x n\<bar> then Inl OverflowError
      else Inr (power_int x n))"

text \<open>\<^verbatim>\<open>round(x)\<close> and \<^verbatim>\<open>round(x, ndigits)\<close>: to the nearest, ties to the even
  neighbour.\<close>

definition round_half_even :: "real \<Rightarrow> int" where
  "round_half_even x =
     (let f = \<lfloor>x\<rfloor>; d = x - of_int f
      in if d < 1 / 2 then f else if 1 / 2 < d then f + 1 else if even f then f else f + 1)"

definition py_round :: "real \<Rightarrow> nat \<Rightarrow> real" where
  "py_round x ndigits = of_int (round_half_even (x * 10 ^ ndigits)) / 10 ^ ndigits"

text \<open>
  The double nearest to a real number, ties to the even mantissa: 53 significant bits, the
  binary exponent not below -1022 (so the subnormal numbers are included). A float
  operation of the interpreter returns \<open>binary64\<close> of the exact result of its double
  operands; \<^verbatim>\<open>round(x, n)\<close> returns \<open>binary64 (py_round x n)\<close>; a decimal literal is
  \<open>binary64\<close> of its value.
\<close>

definition binary64 :: "real \<Rightarrow> real" where
  "binary64 x =
     (if x = 0 then 0
      else let e = max \<lfloor>log 2 \<bar>x\<bar>\<rfloor> (- 1022); u = power_int 2 (e - 52)
           in of_int (round_half_even (x / u)) * u)"

section \<open>Policy constants\<close>

definition MAX_LTV_EXPAT :: real where "MAX_LTV_EXPAT = 80 / 100"
definition MAX_LTV_UAE_NATIONAL :: real where "MAX_LTV_UAE_NATIONAL = 85 / 100"
definition TRANSFER_FEE_PERCENT :: real where "TRANSFER_FEE_PERCENT = 4"
definition AGENCY_FEE_PERCENT :: real where "AGENCY_FEE_PERCENT = 2"
definition MISC_FEES_PERCENT :: real where "MISC_FEES_PERCENT = 1"
definition TOTAL_UPFRONT_COSTS_PERCENT :: real where "TOTAL_UPFRONT_COSTS_PERCENT = 7"
definition DEFAULT_INTEREST_RATE :: real where "DEFAULT_INTEREST_RATE = 45 / 10"
definition MAX_TENURE_YEARS :: int where "MAX_TENURE_YEARS = 25"
definition MAINTENANCE_FEE_PERCENT :: real where "MAINTENANCE_FEE_PERCENT = 15 / 10"

section \<open>The amortization engine\<close>

text \<open>
  \<^verbatim>\<open>calculate_emi(property_price, down_payment_percent, annual_interest_rate, tenure_years)\<close>.
  The two clamps come first; the power and the two divisions are the only operations that
  can raise.
\<close>

definition calculate_emi :: "real \<Rightarrow> real \<Rightarrow> real \<Rightarrow> int \<Rightarrow> py_error + pydict" where
  "calculate_emi property_price down_payment_percent_arg annual_interest_rate tenure_years_arg =
     (let down_payment_percent = max down_payment_percent_arg 20;
          tenure_years = min tenure_years_arg MAX_TENURE_YEARS;
          down_payment = property_price * (down_payment_percent / 100);
          loan_amount = property_price - down_payment;
          monthly_rate = (annual_interest_rate / 100) / 12;
          tenure_months = tenure_years * 12
      in then_do
           (if monthly_rate > 0 then
              then_do (math_pow (1 + monthly_rate) tenure_months) (\<lambda>p1.
              let emi_numerator = loan_amount * monthly_rate * p1
              in then_do (math_pow (1 + monthly_rate) tenure_months) (\<lambda>p2.
              let emi_denominator = p2 - 1
              in py_div emi_numerator emi_denominator))
            else py_div loan_amount (of_int tenure_months))
           (\<lambda>monthly_emi.
              let total_payment = monthly_emi * of_int tenure_months;
                  total_interest = total_payment - loan_amount
              in Inr [(''monthly_emi'', VFloat (py_round monthly_emi 2)),
                      (''total_payment'', VFloat (py_round total_payment 2)),
                      (''total_interest'', VFloat (py_round total_interest 2)),
                      (''loan_amount'', VFloat (py_round loan_amount 2)),
                      (''down_payment'', VFloat (py_round down_payment 2)),
                      (''tenure_months'', VInt tenure_months),
                      (''tenure_years'', VInt tenure_years),
                      (''interest_rate'', VFloat annual_interest_rate),
                      (''property_price'', VFloat property_price)]))"

text \<open>Reading one entry of a returned dict, keeping the error of a call that raised.\<close>

definition result_item :: "py_error + pydict \<Rightarrow> string \<Rightarrow> py_error + pyval" where
  "result_item r k = then_do r (\<lambda>d. getitem d k)"

text \<open>
  The amortization contract in the specification's words: the loan is the price less the
  down payment share, the instalment is the standard annuity formula for a positive monthly
  rate and the straight-line share for a zero rate.
\<close>

definition spec_loanAmount :: "real \<Rightarrow> real \<Rightarrow> real" where
  "spec_loanAmount propertyPrice downPaymentPercent =
     propertyPrice * (1 - downPaymentPercent / 100)"

definition spec_EMI :: "real \<Rightarrow> real \<Rightarrow> nat \<Rightarrow> real" where
  "spec_EMI loanAmount r n =
     (if r = 0 then loanAmount / of_nat n
      else loanAmount * r * (1 + r) ^ n / ((1 + r) ^ n - 1))"

section \<open>Number formatting\<close>

text \<open>
  The format specifications \<^verbatim>\<open>.Nf\<close> and \<^verbatim>\<open>,.Nf\<close> of \<^verbatim>\<open>str.format\<close>: the
  value rounded to \<open>N\<close> decimals (ties to even), a minus sign for a negative value, the
  integer part grouped in threes when the comma is given.
\<close>

definition digit_char :: "nat \<Rightarrow> char" where
  "digit_char d = ''0123456789'' ! d"

fun str_nat :: "nat \<Rightarrow> string" where
  "str_nat n = (if n < 10 then [digit_char n] else str_nat (n div 10) @ [digit_char (n mod 10)])"

declare str_nat.simps [simp del]

fun group3 :: "string \<Rightarrow> string" where
  "group3 (a # b # c # d # rest) = a # b # c # CHR '','' # group3 (d # rest)"
| "group3 ds = ds"

definition comma_grouped :: "string \<Rightarrow> string" where
  "comma_grouped ds = rev (group3 (rev ds))"

definition zero_padded :: "nat \<Rightarrow> string \<Rightarrow> string" where
  "zero_padded w ds = replicate (w - length ds) CHR ''0'' @ ds"

definition format_f :: "bool \<Rightarrow> nat \<Rightarrow> real \<Rightarrow> string" where
  "format_f comma prec x =
     (let scaled = nat (round_half_even (\<bar>x\<bar> * 10 ^ prec));
          whole = str_nat (scaled div 10 ^ prec);
          frac = zero_padded prec (str_nat (scaled mod 10 ^ prec))
      in (if x < 0 then ''-'' else []) @
         (if comma then comma_grouped whole else whole) @
         (if prec = 0 then [] else ''.'' @ frac))"

section \<open>The upfront cost calculator\<close>

text \<open>
  \<^verbatim>\<open>calculate_upfront_costs(property_price, down_payment_percent)\<close>. Nothing in it can
  raise. The three labels print the fee constants, which are fixed.
\<close>

definition calculate_upfront_costs :: "real \<Rightarrow> real \<Rightarrow> pydict" where
  "calculate_upfront_costs property_price down_payment_percent_arg =
     (let down_payment_percent = max down_payment_percent_arg 20;
          down_payment = property_price * (down_payment_percent / 100);
          transfer_fee = property_price * (TRANSFER_FEE_PERCENT / 100);
          agency_fee = property_price * (AGENCY_FEE_PERCENT / 100);
          misc_fees = property_price * (MISC_FEES_PERCENT / 100);
          total_fees = transfer_fee + agency_fee + misc_fees;
          total_cash_needed = down_payment + total_fees
      in [(''property_price'', VFloat (py_round property_price 2)),
          (''down_payment'', VFloat (py_round down_payment 2)),
          (''down_payment_percent'', VFloat down_payment_percent),
          (''transfer_fee'', VFloat (py_round transfer_fee 2)),
          (''transfer_fee_label'', VStr ''4.0% (Dubai Land Dept)''),
          (''agency_fee'', VFloat (py_round agency_fee 2)),
          (''agency_fee_label'', VStr ''2.0% (Agent Commission)''),
          (''misc_fees'', VFloat (py_round misc_fees 2)),
          (''misc_fees_label'', VStr ''1.0% (Valuation, Registration)''),
          (''total_fees'', VFloat (py_round total_fees 2)),
          (''total_fees_percent'', VFloat TOTAL_UPFRONT_COSTS_PERCENT),
          (''total_cash_needed'', VFloat (py_round total_cash_needed 2)),
          (''warning'', VStr ('' You need '' @ format_f True 0 (py_round total_cash_needed 0) @
              '' AED in CASH to buy (not just '' @ format_f True 0 (py_round down_payment 0) @
              '' AED down payment!)''))])"

text \<open>\<^verbatim>\<open>'{:,}'.format(i)\<close> on an \<^verbatim>\<open>int\<close>.\<close>

definition format_int_comma :: "int \<Rightarrow> string" where
  "format_int_comma i = (if i < 0 then ''-'' else []) @ comma_grouped (str_nat (nat \<bar>i\<bar>))"

text \<open>
  A value under a float format specification: numbers are printed, a string raises
  \<^verbatim>\<open>ValueError\<close>, anything else \<^verbatim>\<open>TypeError\<close>.
\<close>

definition format_value_f :: "bool \<Rightarrow> nat \<Rightarrow> pyval \<Rightarrow> py_error + string" where
  "format_value_f comma prec v = (case v of
       VInt i \<Rightarrow> Inr (format_f comma prec (of_int i))
     | VFloat x \<Rightarrow> Inr (format_f comma prec x)
     | VBool b \<Rightarrow> Inr (format_f comma prec (if b then 1 else 0))
     | VStr s \<Rightarrow> Inl ValueError
     | _ \<Rightarrow> Inl TypeError)"

text \<open>An \<^verbatim>\<open>int\<close> where \<^verbatim>\<open>range\<close> and \<^verbatim>\<open>min\<close> need one.\<close>

definition int_of :: "pyval \<Rightarrow> py_error + int" where
  "int_of v = (case v of
       VInt i \<Rightarrow> Inr i
     | VBool b \<Rightarrow> Inr (if b then 1 else 0)
     | _ \<Rightarrow> Inl TypeError)"

section \<open>The affordability engine\<close>

text \<open>
  \<^verbatim>\<open>calculate_affordability(monthly_income, monthly_expenses, existing_debts,
  max_dti_ratio)\<close>. The early return writes integer zeros and a dict with fewer keys than
  the main return. The division by \<open>monthly_income\<close> in the DTI line is unguarded.
\<close>

definition calculate_affordability :: "real \<Rightarrow> real \<Rightarrow> real \<Rightarrow> real \<Rightarrow> py_error + pydict" where
  "calculate_affordability monthly_income monthly_expenses existing_debts max_dti_ratio =
     (let available_for_debt = monthly_income * (max_dti_ratio / 100);
          max_emi = available_for_debt - existing_debts
      in if max_emi \<le> 0 then
           Inr [(''is_affordable'', VBool False),
                (''max_emi'', VInt 0),
                (''max_loan_amount'', VInt 0),
                (''max_property_price'', VInt 0),
                (''dti_ratio'', VInt 100),
                (''warning'', VStr '' Your existing debts are too high. You need to reduce debts before considering a mortgage.'')]
         else
           (let tenure_years = (25 :: int);
                annual_rate = DEFAULT_INTEREST_RATE;
                monthly_rate = (annual_rate / 100) / 12;
                tenure_months = tenure_years * 12
            in then_do (math_pow (1 + monthly_rate) tenure_months) (\<lambda>p1.
               then_do (math_pow (1 + monthly_rate) tenure_months) (\<lambda>p2.
               then_do (py_div (p1 - 1) (monthly_rate * p2)) (\<lambda>multiplier.
               let max_loan = max_emi * multiplier
               in then_do (py_div max_loan MAX_LTV_EXPAT) (\<lambda>max_property_price.
               then_do (py_div (max_emi + existing_debts) monthly_income) (\<lambda>q.
               let dti = q * 100;
                   comfortable_emi = max_emi * (7 / 10);
                   is_comfortable = (monthly_expenses < monthly_income * (4 / 10))
               in Inr [(''is_affordable'', VBool True),
                       (''max_emi'', VFloat (py_round max_emi 2)),
                       (''recommended_emi'', VFloat (py_round comfortable_emi 2)),
                       (''max_loan_amount'', VFloat (py_round max_loan 2)),
                       (''max_property_price'', VFloat (py_round max_property_price 2)),
                       (''comfortable_property_price'',
                          VFloat (py_round (max_property_price * (7 / 10)) 2)),
                       (''dti_ratio'', VFloat (py_round dti 1)),
                       (''monthly_income'', VFloat monthly_income),
                       (''existing_debts'', VFloat existing_debts),
                       (''note'', VStr '' Comfortable budget is 70% of maximum to leave room for emergencies.'')])))))))"

text \<open>
  The same function with the rounding of every float result written out: each operation,
  each decimal literal and each \<^verbatim>\<open>round\<close> is followed by \<open>binary64\<close>. The arguments
  are doubles already. \<^verbatim>\<open>math.pow\<close> is taken as correctly rounded.
\<close>

definition math_pow64 :: "real \<Rightarrow> int \<Rightarrow> py_error + real" where
  "math_pow64 x n = then_do (math_pow x n) (\<lambda>v. Inr (binary64 v))"

definition py_div64 :: "real \<Rightarrow> real \<Rightarrow> py_error + real" where
  "py_div64 a b = then_do (py_div a b) (\<lambda>v. Inr (binary64 v))"

definition calculate_affordability_binary64 ::
  "real \<Rightarrow> real \<Rightarrow> real \<Rightarrow> real \<Rightarrow> py_error + pydict" where
  "calculate_affordability_binary64 monthly_income monthly_expenses existing_debts max_dti_ratio =
     (let available_for_debt = binary64 (monthly_income * binary64 (max_dti_ratio / 100));
          max_emi = binary64 (available_for_debt - existing_debts)
      in if max_emi \<le> 0 then
           Inr [(''is_affordable'', VBool False),
                (''max_emi'', VInt 0),
                (''max_loan_amount'', VInt 0),
                (''max_property_price'', VInt 0),
                (''dti_ratio'', VInt 100),
                (''warning'', VStr '' Your existing debts are too high. You need to reduce debts before considering a mortgage.'')]
         else
           (let tenure_years = (25 :: int);
                annual_rate = binary64 DEFAULT_INTEREST_RATE;
                monthly_rate = binary64 (binary64 (annual_rate / 100) / 12);
                tenure_months = tenure_years * 12
            in then_do (math_pow64 (binary64 (1 + monthly_rate)) tenure_months) (\<lambda>p1.
               then_do (math_pow64 (binary64 (1 + monthly_rate)) tenure_months) (\<lambda>p2.
               then_do (py_div64 (binary64 (p1 - 1)) (binary64 (monthly_rate * p2))) (\<lambda>multiplier.
               let max_loan = binary64 (max_emi * multiplier)
               in then_do (py_div64 max_loan (binary64 MAX_LTV_EXPAT)) (\<lambda>max_property_price.
               then_do (py_div64 (binary64 (max_emi + existing_debts)) monthly_income) (\<lambda>q.
               let dti = binary64 (q * 100);
                   comfortable_emi = binary64 (max_emi * binary64 (7 / 10));
                   is_comfortable =
                     (monthly_expenses < binary64 (monthly_income * binary64 (4 / 10)))
               in Inr [(''is_affordable'', VBool True),
                       (''max_emi'', VFloat (binary64 (py_round max_emi 2))),
                       (''recommended_emi'', VFloat (binary64 (py_round comfortable_emi 2))),
                       (''max_loan_amount'', VFloat (binary64 (py_round max_loan 2))),
                       (''max_property_price'',
                          VFloat (binary64 (py_round max_property_price 2))),
                       (''comfortable_property_price'',
                          VFloat (binary64 (py_round
                            (binary64 (max_property_price * binary64 (7 / 10))) 2))),
                       (''dti_ratio'', VFloat (binary64 (py_round dti 1))),
                       (''monthly_income'', VFloat monthly_income),
                       (''existing_debts'', VFloat existing_debts),
                       (''note'', VStr '' Comfortable budget is 70% of maximum to leave room for emergencies.'')])))))))"

text \<open>
  \<^verbatim>\<open>tool_assess_affordability(monthly_income, existing_monthly_debts,
  desired_property_price)\<close>: the formatting wrapper. The f-string reads its keys from left to
  right, so the first key that is missing decides the \<^verbatim>\<open>KeyError\<close>.
\<close>

definition note_text :: "pyval \<Rightarrow> string" where
  "note_text v = (case v of VStr s \<Rightarrow> s | _ \<Rightarrow> [])"

definition tool_assess_affordability :: "real \<Rightarrow> real \<Rightarrow> real \<Rightarrow> py_error + string" where
  "tool_assess_affordability monthly_income existing_monthly_debts desired_property_price =
     then_do (calculate_affordability monthly_income 0 existing_monthly_debts 50) (\<lambda>result.
     then_do (then_do (getitem result ''max_emi'') (format_value_f True 0)) (\<lambda>s_max_emi.
     then_do (then_do (getitem result ''max_property_price'') (format_value_f True 0)) (\<lambda>s_max_price.
     then_do (then_do (getitem result ''comfortable_property_price'') (format_value_f True 0)) (\<lambda>s_comfortable.
     then_do (then_do (getitem result ''max_loan_amount'') (format_value_f True 0)) (\<lambda>s_max_loan.
     then_do (then_do (getitem result ''dti_ratio'') (format_value_f False 1)) (\<lambda>s_dti.
     then_do (getitem result ''note'') (\<lambda>note.
     let output =
           ''\<newline> **Affordability Assessment**\<newline>\<newline>'' @
           ''**Your Income:** '' @ format_f True 0 monthly_income @ '' AED/month\<newline>'' @
           ''**Existing Debts:** '' @ format_f True 0 existing_monthly_debts @ '' AED/month\<newline>'' @
           ''**Available for Mortgage:** '' @ s_max_emi @ '' AED/month (max)\<newline>\<newline>'' @
           ''**What you can afford:**\<newline>'' @
           ''- Maximum Property: '' @ s_max_price @ '' AED\<newline>'' @
           ''- Comfortable Budget: '' @ s_comfortable @ '' AED (recommended)\<newline>'' @
           ''- Maximum Loan: '' @ s_max_loan @ '' AED\<newline>\<newline>'' @
           ''**Debt-to-Income Ratio:** '' @ s_dti @ ''%\<newline>\<newline>'' @
           note_text note @ ''\<newline>''
     in if desired_property_price > 0 then
          then_do (then_do (getitem result ''max_property_price'') num_of) (\<lambda>max_price.
          let is_affordable = (desired_property_price \<le> max_price)
          in then_do (then_do (getitem result ''comfortable_property_price'') num_of) (\<lambda>comfortable.
          let is_comfortable = (desired_property_price \<le> comfortable)
          in if is_comfortable then
               Inr (output @ ''\<newline> **'' @ format_f True 0 desired_property_price @
                    '' AED** is comfortably within your budget!'')
             else if is_affordable then
               Inr (output @ ''\<newline> **'' @ format_f True 0 desired_property_price @
                    '' AED** is possible but stretches your budget. Consider a lower price.'')
             else
               then_do (then_do (getitem result ''max_property_price'') num_of) (\<lambda>max_price2.
               let gap = desired_property_price - max_price2
               in Inr (output @ ''\<newline> **'' @ format_f True 0 desired_property_price @
                       '' AED** exceeds your maximum by '' @ format_f True 0 gap @ '' AED.''))))
        else Inr output)))))))"

text \<open>
  The value of the local \<open>multiplier\<close> of \<open>calculate_affordability\<close>: the loan that one
  unit of monthly payment carries at the default rate over 300 months.
\<close>

definition loan_multiplier :: real where
  "loan_multiplier =
     (power_int (1 + (DEFAULT_INTEREST_RATE / 100) / 12) 300 - 1) /
     ((DEFAULT_INTEREST_RATE / 100) / 12 * power_int (1 + (DEFAULT_INTEREST_RATE / 100) / 12) 300)"

text \<open>The \<open>max_property_price\<close> entry of an affordability result, as a number.\<close>

definition max_property_price_of :: "py_error + pydict \<Rightarrow> py_error + real" where
  "max_property_price_of r = then_do (result_item r ''max_property_price'') num_of"

section \<open>The eligibility validator\<close>

text \<open>\<^verbatim>\<open>str.lower\<close> on ASCII text.\<close>

definition lower_char :: "char \<Rightarrow> char" where
  "lower_char c =
     (case map_of (zip ''ABCDEFGHIJKLMNOPQRSTUVWXYZ'' ''abcdefghijklmnopqrstuvwxyz'') c of
        Some l \<Rightarrow> l
      | None \<Rightarrow> c)"

definition lower :: "string \<Rightarrow> string" where
  "lower s = map lower_char s"

text \<open>
  \<^verbatim>\<open>validate_user_eligibility(nationality, monthly_income, employment_type,
  years_in_uae)\<close>. The two lists grow by \<^verbatim>\<open>append\<close> in the order of the checks.
\<close>

definition validate_user_eligibility :: "string \<Rightarrow> real \<Rightarrow> string \<Rightarrow> real \<Rightarrow> pydict" where
  "validate_user_eligibility nationality monthly_income employment_type years_in_uae =
     (let issues0 = [];
          warnings0 = [];
          is_expat = (lower nationality \<noteq> ''uae_national'');
          max_ltv = (if is_expat then MAX_LTV_EXPAT else MAX_LTV_UAE_NATIONAL);
          min_down_payment = (1 - max_ltv) * 100;
          min_income = (if is_expat then 15000 else 10000 :: int);
          issues1 =
            (if monthly_income < of_int min_income
             then issues0 @ [VStr (''Most banks require minimum income of '' @
                                   format_int_comma min_income @ '' AED/month'')]
             else issues0);
          self_employed = (employment_type \<in> set [''self_employed'', ''business_owner'']);
          warnings1 =
            (if self_employed
             then warnings0 @ [VStr ''Self-employed applicants may face stricter documentation requirements (2+ years of audited accounts)'']
             else warnings0);
          issues2 =
            (if self_employed \<and> is_expat \<and> years_in_uae < 2
             then issues1 @ [VStr ''Self-employed expats typically need 2+ years in UAE'']
             else issues1);
          warnings2 =
            (if is_expat \<and> years_in_uae < 1 / 2
             then warnings1 @ [VStr ''Some banks require 6+ months UAE residency'']
             else warnings1);
          is_eligible = (length issues2 = 0)
      in [(''is_eligible'', VBool is_eligible),
          (''nationality_type'', VStr (if is_expat then ''Expat'' else ''UAE National'')),
          (''max_ltv'', VFloat (max_ltv * 100)),
          (''min_down_payment_percent'', VFloat min_down_payment),
          (''issues'', VList issues2),
          (''warnings'', VList warnings2),
          (''next_steps'',
             VList (if is_eligible
                    then [VStr ''Gather salary certificates (3 months)'',
                          VStr ''Prepare bank statements (6 months)'',
                          VStr ''Get Emirates ID copy'',
                          VStr ''Obtain passport copy with residence visa'']
                    else [VStr ''Address the issues listed above first'']))])"

section \<open>The buy-versus-rent analyzer\<close>

text \<open>
  \<^verbatim>\<open>analyze_buy_vs_rent\<close> is embedded in three steps that follow its text: the figures
  up to \<open>savings_if_buying\<close>, the break-even estimate, and the recommendation with the
  returned dict. The two \<^verbatim>\<open>for\<close> loops run \<open>range(k)\<close>, which is empty for a
  negative \<open>k\<close>; \<open>total_rent\<close> starts as the \<^verbatim>\<open>int\<close> 0 and stays one when the
  first loop does not run. The prose entries \<open>reasoning\<close> and \<open>assumptions\<close> print floats by
  \<^verbatim>\<open>repr\<close>, which exact reals cannot express; they are left out of the dict.
\<close>

fun rent_loop :: "nat \<Rightarrow> real \<Rightarrow> real \<Rightarrow> real \<Rightarrow> real \<times> real" where
  "rent_loop 0 annual_rent_increase_percent total_rent current_rent = (total_rent, current_rent)"
| "rent_loop (Suc k) annual_rent_increase_percent total_rent current_rent =
     rent_loop k annual_rent_increase_percent
       (total_rent + current_rent * 12)
       (current_rent * (1 + annual_rent_increase_percent / 100))"

fun amortize :: "nat \<Rightarrow> real \<Rightarrow> real \<Rightarrow> real \<Rightarrow> real \<Rightarrow> real \<times> real" where
  "amortize 0 monthly_emi monthly_rate principal_paid remaining_balance =
     (principal_paid, remaining_balance)"
| "amortize (Suc k) monthly_emi monthly_rate principal_paid remaining_balance =
     (let interest_portion = remaining_balance * monthly_rate;
          principal_portion = monthly_emi - interest_portion
      in amortize k monthly_emi monthly_rate
           (principal_paid + principal_portion) (remaining_balance - principal_portion))"

record figures =
  monthly_emi :: real
  monthly_maintenance :: real
  monthly_buy_cost :: real
  total_rent :: real
  principal_paid :: real
  appreciation_gain :: real
  down_payment :: real
  equity_buildup :: real
  total_upfront :: real
  total_buy_cost :: real
  total_rent_cost :: real
  savings_if_buying :: real
  upfront :: pydict

definition buy_vs_rent_figures ::
  "real \<Rightarrow> real \<Rightarrow> int \<Rightarrow> real \<Rightarrow> real \<Rightarrow> real \<Rightarrow> real \<Rightarrow> py_error + figures" where
  "buy_vs_rent_figures property_price current_monthly_rent years_planning_to_stay
       down_payment_percent_arg annual_interest_rate expected_appreciation_percent
       annual_rent_increase_percent =
     (let down_payment_percent = max down_payment_percent_arg 20;
          months = years_planning_to_stay * 12
      in then_do (calculate_emi property_price down_payment_percent annual_interest_rate
                    (min years_planning_to_stay 25)) (\<lambda>emi_result.
         then_do (then_do (getitem emi_result ''monthly_emi'') num_of) (\<lambda>emi.
         let upfront_costs = calculate_upfront_costs property_price down_payment_percent
         in then_do (then_do (getitem upfront_costs ''total_cash_needed'') num_of) (\<lambda>upfront_total.
         let maintenance = (property_price * MAINTENANCE_FEE_PERCENT / 100) / 12;
             buy_cost = emi + maintenance;
             rent_total = fst (rent_loop (nat years_planning_to_stay)
                                 annual_rent_increase_percent 0 current_monthly_rent);
             avg_monthly_rent =
               (if months > 0 then rent_total / of_int months else current_monthly_rent)
         in then_do (then_do (getitem emi_result ''loan_amount'') num_of) (\<lambda>loan_amount.
         let monthly_rate = (annual_interest_rate / 100) / 12
         in then_do (then_do (getitem emi_result ''tenure_months'') int_of) (\<lambda>tenure_months.
         let principal = fst (amortize (nat (min months tenure_months)) emi monthly_rate
                                0 loan_amount)
         in then_do (math_pow (1 + expected_appreciation_percent / 100)
                       years_planning_to_stay) (\<lambda>growth.
         let future_value = property_price * growth;
             appreciation = future_value - property_price
         in then_do (then_do (getitem upfront_costs ''down_payment'') num_of) (\<lambda>down.
         let equity = down + principal + appreciation;
             buy_total = upfront_total + (buy_cost * of_int months);
             net_buy_position = equity - buy_total;
             net_rent_position = - rent_total;
             savings = equity - (buy_total - rent_total)
         in Inr \<lparr>monthly_emi = emi,
                  monthly_maintenance = maintenance,
                  monthly_buy_cost = buy_cost,
                  total_rent = rent_total,
                  principal_paid = principal,
                  appreciation_gain = appreciation,
                  down_payment = down,
                  equity_buildup = equity,
                  total_upfront = upfront_total,
                  total_buy_cost = buy_total,
                  total_rent_cost = rent_total,
                  savings_if_buying = savings,
                  upfront = upfront_costs\<rparr>))))))))"

text \<open>
  The break-even estimate. \<^verbatim>\<open>min\<close> and \<^verbatim>\<open>max\<close> return one of their arguments, so
  the sentinel stays the \<^verbatim>\<open>int\<close> 99 or 0; the first branch divides only under its
  guard, the \<^verbatim>\<open>else\<close> branch divides unguarded.
\<close>

definition py_min2 :: "pyval \<Rightarrow> real \<Rightarrow> pyval \<Rightarrow> real \<Rightarrow> pyval \<times> real" where
  "py_min2 a x b y = (if y < x then (b, y) else (a, x))"

definition py_max2 :: "pyval \<Rightarrow> real \<Rightarrow> pyval \<Rightarrow> real \<Rightarrow> pyval \<times> real" where
  "py_max2 a x b y = (if y > x then (b, y) else (a, x))"

definition break_even_years :: "figures \<Rightarrow> real \<Rightarrow> int \<Rightarrow> py_error + pyval" where
  "break_even_years fig current_monthly_rent years_planning_to_stay =
     then_do
       (if monthly_buy_cost fig > current_monthly_rent then
          then_do (py_div (principal_paid fig) (of_int years_planning_to_stay)) (\<lambda>q1.
          then_do (py_div (appreciation_gain fig) (of_int years_planning_to_stay)) (\<lambda>q2.
          let annual_equity_gain = q1 + q2;
              annual_extra_cost = (monthly_buy_cost fig - current_monthly_rent) * 12
          in if annual_equity_gain > 0 then
               (if annual_equity_gain > annual_extra_cost
                then then_do (py_div (total_upfront fig) (annual_equity_gain - annual_extra_cost))
                       (\<lambda>q. Inr (VFloat q))
                else Inr (VInt 99))
             else Inr (VInt 99)))
        else
          then_do (py_div (principal_paid fig) (of_int years_planning_to_stay)) (\<lambda>q1.
          then_do (py_div (total_upfront fig)
                     ((current_monthly_rent - monthly_buy_cost fig) * 12 + q1))
            (\<lambda>q. Inr (VFloat q))))
       (\<lambda>estimate.
          then_do (num_of estimate) (\<lambda>x.
          let (lo, y) = py_min2 estimate x (VInt 99) 99
          in Inr (fst (py_max2 (VInt 0) 0 lo y))))"

text \<open>The recommendation branches of the code, in its order.\<close>

definition recommendation_of :: "int \<Rightarrow> real \<Rightarrow> string" where
  "recommendation_of years_planning_to_stay savings =
     (if years_planning_to_stay < 3 then ''RENT''
      else if years_planning_to_stay \<le> 5 then
        (if savings > 50000 then ''BUY''
         else if savings < - 50000 then ''RENT''
         else ''BORDERLINE'')
      else ''BUY'')"

text \<open>\<^verbatim>\<open>round(x, 1)\<close> keeps an \<^verbatim>\<open>int\<close> an \<^verbatim>\<open>int\<close>.\<close>

definition round_value :: "pyval \<Rightarrow> nat \<Rightarrow> pyval" where
  "round_value v ndigits = (case v of VFloat x \<Rightarrow> VFloat (py_round x ndigits) | _ \<Rightarrow> v)"

definition analyze_buy_vs_rent ::
  "real \<Rightarrow> real \<Rightarrow> int \<Rightarrow> real \<Rightarrow> real \<Rightarrow> real \<Rightarrow> real \<Rightarrow> py_error + pydict" where
  "analyze_buy_vs_rent property_price current_monthly_rent years_planning_to_stay
       down_payment_percent annual_interest_rate expected_appreciation_percent
       annual_rent_increase_percent =
     then_do (buy_vs_rent_figures property_price current_monthly_rent years_planning_to_stay
                down_payment_percent annual_interest_rate expected_appreciation_percent
                annual_rent_increase_percent) (\<lambda>fig.
     then_do (break_even_years fig current_monthly_rent years_planning_to_stay) (\<lambda>break_even.
     let recommendation = recommendation_of years_planning_to_stay (savings_if_buying fig)
     in Inr [(''recommendation'', VStr recommendation),
             (''monthly_breakdown'', VDict
                [(''mortgage_emi'', VFloat (py_round (monthly_emi fig) 2)),
                 (''maintenance'', VFloat (py_round (monthly_maintenance fig) 2)),
                 (''total_monthly_buy_cost'', VFloat (py_round (monthly_buy_cost fig) 2)),
                 (''current_monthly_rent'', VFloat current_monthly_rent),
                 (''difference'',
                    VFloat (py_round (monthly_buy_cost fig - current_monthly_rent) 2))]),
             (''cumulative_analysis'', VDict
                [(''total_buy_cost'', VFloat (py_round (total_buy_cost fig) 2)),
                 (''total_rent_cost'',
                    (if years_planning_to_stay \<le> 0 then VInt 0
                     else VFloat (py_round (total_rent_cost fig) 2))),
                 (''equity_buildup'', VFloat (py_round (equity_buildup fig) 2)),
                 (''savings_if_buying'', VFloat (py_round (savings_if_buying fig) 2)),
                 (''break_even_years'', round_value break_even 1)]),
             (''upfront_costs'', VDict (upfront fig)),
             (''years_analyzed'', VInt years_planning_to_stay)]))"

text \<open>The recommendation policy in the specification's words.\<close>

definition spec_recommendation :: "int \<Rightarrow> real \<Rightarrow> string" where
  "spec_recommendation yearsStaying savingsIfBuying =
     (if yearsStaying < 3 then ''RENT''
      else if 3 \<le> yearsStaying \<and> yearsStaying \<le> 5 then
        (if savingsIfBuying > 50000 then ''BUY''
         else if savingsIfBuying < - 50000 then ''RENT''
         else ''BORDERLINE'')
      else ''BUY'')"

section \<open>Rounding and power facts\<close>

lemma round_half_even_lower: "x - 1 / 2 \<le> of_int (round_half_even x)"
  unfolding round_half_even_def Let_def by (simp; linarith)

lemma round_half_even_upper: "of_int (round_half_even x) \<le> x + 1 / 2"
  unfolding round_half_even_def Let_def by (simp; linarith)

lemma round_half_even_of_int [simp]: "round_half_even (of_int k) = k"
  unfolding round_half_even_def Let_def by simp

lemma round_half_even_mono:
  assumes "x \<le> y"
  shows "round_half_even x \<le> round_half_even y"
proof (cases "\<lfloor>x\<rfloor> = \<lfloor>y\<rfloor>")
  case True
  with assms show ?thesis
    unfolding round_half_even_def Let_def by auto
next
  case False
  with assms have "\<lfloor>x\<rfloor> + 1 \<le> \<lfloor>y\<rfloor>"
    using floor_mono [of x y] by linarith
  moreover have "round_half_even x \<le> \<lfloor>x\<rfloor> + 1"
    unfolding round_half_even_def Let_def by simp
  moreover have "\<lfloor>y\<rfloor> \<le> round_half_even y"
    unfolding round_half_even_def Let_def by simp
  ultimately show ?thesis by linarith
qed

lemma py_round_mono: "x \<le> y \<Longrightarrow> py_round x n \<le> py_round y n"
  unfolding py_round_def
  by (intro divide_right_mono) (simp_all add: round_half_even_mono mult_right_mono)

lemma py_round_zero [simp]: "py_round 0 n = 0"
  unfolding py_round_def using round_half_even_of_int [of 0] by simp

lemma py_round_nonneg: "0 \<le> x \<Longrightarrow> 0 \<le> py_round x n"
  using py_round_mono [of 0 x n] by simp

lemma py_round_nonpos: "x \<le> 0 \<Longrightarrow> py_round x n \<le> 0"
  using py_round_mono [of x 0 n] by simp

lemma py_round_error: "\<bar>py_round x n - x\<bar> \<le> 1 / (2 * 10 ^ n)"
proof -
  have p: "(0::real) < 10 ^ n" by simp
  have "\<bar>of_int (round_half_even (x * 10 ^ n)) - x * 10 ^ n\<bar> \<le> 1 / 2"
    using round_half_even_lower [of "x * 10 ^ n"] round_half_even_upper [of "x * 10 ^ n"]
    by linarith
  then have "\<bar>of_int (round_half_even (x * 10 ^ n)) - x * 10 ^ n\<bar> / 10 ^ n \<le> (1 / 2) / 10 ^ n"
    using p by (intro divide_right_mono) simp_all
  moreover have "\<bar>of_int (round_half_even (x * 10 ^ n)) - x * 10 ^ n\<bar> / 10 ^ n = \<bar>py_round x n - x\<bar>"
    unfolding py_round_def using p by (simp add: field_simps abs_if)
  ultimately show ?thesis by simp
qed

lemma py_round2_error: "\<bar>py_round x 2 - x\<bar> \<le> 5 / 1000"
  using py_round_error [of x 2] by simp

lemma round_half_even_eqI:
  assumes "of_int k - 1 / 2 < x" and "x < of_int k + 1 / 2"
  shows "round_half_even x = k"
proof -
  have "\<lfloor>x\<rfloor> = k \<or> \<lfloor>x\<rfloor> = k - 1" using assms by linarith
  then show ?thesis
  proof
    assume "\<lfloor>x\<rfloor> = k"
    with assms show ?thesis unfolding round_half_even_def Let_def by simp
  next
    assume "\<lfloor>x\<rfloor> = k - 1"
    with assms show ?thesis unfolding round_half_even_def Let_def by simp
  qed
qed

lemma py_round_eqI:
  assumes "of_int k - 1 / 2 < x * 10 ^ n" and "x * 10 ^ n < of_int k + 1 / 2"
  shows "py_round x n = of_int k / 10 ^ n"
  unfolding py_round_def using round_half_even_eqI [OF assms] by simp

lemma power_int_gt_one_neq_one:
  fixes x :: real
  assumes "1 < x" and "n \<noteq> 0"
  shows "power_int x n \<noteq> 1"
proof (cases "0 < n")
  case True
  then have "1 < x ^ nat n" using assms(1) by (simp add: one_less_power)
  with True show ?thesis by (simp add: power_int_def)
next
  case False
  with assms(2) have n: "n < 0" by simp
  then have "1 < x ^ nat (- n)" using assms(1) by (simp add: one_less_power)
  then have "inverse (x ^ nat (- n)) < 1" by (simp add: inverse_less_1_iff)
  then have "inverse x ^ nat (- n) < 1" by (simp add: power_inverse)
  with n show ?thesis by (simp add: power_int_def)
qed

lemma py_round_of_int: "py_round (of_int k) n = of_int k"
  unfolding py_round_def using round_half_even_of_int [of "k * 10 ^ n"] by simp

section \<open>Facts about doubles\<close>

lemma two_powr_int: "(2::real) powr of_int k = power_int 2 k"
  by (simp add: powr_real_of_int power_int_def power_one_over inverse_eq_divide)

lemma floor_log2_eqI:
  assumes "power_int 2 e \<le> a" and "a < power_int 2 (e + 1)"
  shows "\<lfloor>log 2 a\<rfloor> = e"
proof -
  have "0 < a" using assms(1) zero_less_power_int [of "2::real" e] by linarith
  moreover have "2 powr of_int e \<le> a" "a < 2 powr of_int (e + 1)"
    using assms by (simp_all only: two_powr_int)
  ultimately show ?thesis
    using floor_log_eq_powr_iff [of a 2 e] by simp
qed

lemma floor_log2_bounds:
  assumes "0 < a"
  shows "power_int 2 \<lfloor>log 2 a\<rfloor> \<le> a" and "a < power_int 2 (\<lfloor>log 2 a\<rfloor> + 1)"
proof -
  have "2 powr of_int \<lfloor>log 2 a\<rfloor> \<le> a \<and> a < 2 powr of_int (\<lfloor>log 2 a\<rfloor> + 1)"
    using floor_log_eq_powr_iff [of a 2 "\<lfloor>log 2 a\<rfloor>"] assms by simp
  then show "power_int 2 \<lfloor>log 2 a\<rfloor> \<le> a" and "a < power_int 2 (\<lfloor>log 2 a\<rfloor> + 1)"
    by (simp_all only: two_powr_int)
qed

lemma binary64_eqI:
  assumes "power_int 2 e \<le> \<bar>x\<bar>" and "\<bar>x\<bar> < power_int 2 (e + 1)" and "- 1022 \<le> e"
    and "of_int m - 1 / 2 < x / power_int 2 (e - 52)"
    and "x / power_int 2 (e - 52) < of_int m + 1 / 2"
  shows "binary64 x = of_int m * power_int 2 (e - 52)"
proof -
  have "(0::real) < power_int 2 e" by simp
  with assms(1) have "0 < \<bar>x\<bar>" by linarith
  then have nz: "x \<noteq> 0" by simp
  have "\<lfloor>log 2 \<bar>x\<bar>\<rfloor> = e" using assms(1,2) by (rule floor_log2_eqI)
  then have e: "max \<lfloor>log 2 \<bar>x\<bar>\<rfloor> (- 1022) = e" using assms(3) by simp
  have "round_half_even (x / power_int 2 (e - 52)) = m"
    using assms(4,5) by (rule round_half_even_eqI)
  then show ?thesis unfolding binary64_def Let_def e using nz by simp
qed

lemma binary64_zero [simp]: "binary64 0 = 0"
  by (simp add: binary64_def)

lemma binary64_ge_pow2:
  assumes "power_int 2 k \<le> x" and "- 1022 \<le> k"
  shows "power_int 2 k \<le> binary64 x"
proof -
  have x: "0 < x" using assms(1) zero_less_power_int [of "2::real" k] by linarith
  define e where "e = \<lfloor>log 2 x\<rfloor>"
  have lo: "power_int 2 e \<le> x" unfolding e_def using x by (rule floor_log2_bounds)
  have ke: "k \<le> e"
  proof (rule ccontr)
    assume "\<not> k \<le> e"
    then have "e + 1 \<le> k" by simp
    then have "power_int (2::real) (e + 1) \<le> power_int 2 k"
      by (intro power_int_increasing) simp_all
    moreover have "x < power_int 2 (e + 1)" unfolding e_def using x by (rule floor_log2_bounds)
    ultimately show False using assms(1) by linarith
  qed
  then have m: "max e (- 1022) = e" using assms(2) by simp
  define u where "u = power_int (2::real) (e - 52)"
  have u: "0 < u" unfolding u_def by simp
  have "power_int (2::real) (52 + (e - 52)) = power_int 2 52 * power_int 2 (e - 52)"
    by (rule power_int_add) simp
  then have eu: "power_int 2 e = 2 ^ 52 * u" unfolding u_def by simp
  have "2 ^ 52 \<le> x / u" using lo u unfolding eu by (simp add: pos_le_divide_eq)
  then have "round_half_even (of_int (2 ^ 52)) \<le> round_half_even (x / u)"
    by (intro round_half_even_mono) simp
  then have "(2 ^ 52 :: int) \<le> round_half_even (x / u)" by (simp only: round_half_even_of_int)
  then have "(2 ^ 52 :: real) \<le> of_int (round_half_even (x / u))"
    by (metis of_int_le_iff of_int_numeral of_int_power)
  then have "2 ^ 52 * u \<le> of_int (round_half_even (x / u)) * u"
    using u by (simp add: mult_right_mono)
  then have "power_int 2 e \<le> binary64 x"
    unfolding binary64_def Let_def using x m by (simp add: e_def [symmetric] u_def [symmetric] eu)
  moreover have "power_int (2::real) k \<le> power_int 2 e"
    using ke by (intro power_int_increasing) simp_all
  ultimately show ?thesis by linarith
qed

lemma binary64_le_pow2:
  assumes "0 \<le> x" and "x \<le> power_int 2 k" and "- 1022 \<le> k"
  shows "binary64 x \<le> power_int 2 k"
proof (cases "x = 0")
  case True
  then show ?thesis by simp
next
  case False
  with assms(1) have x: "0 < x" by simp
  define e where "e = max \<lfloor>log 2 x\<rfloor> (- 1022)"
  define u where "u = power_int (2::real) (e - 52)"
  have u: "0 < u" unfolding u_def by simp
  have fl: "binary64 x = of_int (round_half_even (x / u)) * u"
    unfolding binary64_def Let_def using x by (simp add: e_def [symmetric] u_def [symmetric])
  have "power_int (2::real) ((k - e + 52) + (e - 52))
      = power_int 2 (k - e + 52) * power_int 2 (e - 52)"
    by (rule power_int_add) simp
  then have k53: "power_int 2 k = power_int 2 (k - e + 52) * u" unfolding u_def by simp
  have le: "\<lfloor>log 2 x\<rfloor> \<le> k"
  proof (rule ccontr)
    assume "\<not> \<lfloor>log 2 x\<rfloor> \<le> k"
    then have "k + 1 \<le> \<lfloor>log 2 x\<rfloor>" by simp
    then have "power_int (2::real) (k + 1) \<le> power_int 2 \<lfloor>log 2 x\<rfloor>"
      by (intro power_int_increasing) simp_all
    moreover have "power_int 2 \<lfloor>log 2 x\<rfloor> \<le> x" using x by (rule floor_log2_bounds)
    moreover have "power_int (2::real) k < power_int 2 (k + 1)"
      by (intro power_int_strict_increasing) simp_all
    ultimately show False using assms(2) by linarith
  qed
  then have ek: "e \<le> k" unfolding e_def using assms(3) by simp
  then obtain j where j: "k - e + 52 = int j" using nonneg_int_cases [of "k - e + 52"] by auto
  have "x / u \<le> power_int 2 (k - e + 52)"
    using assms(2) u unfolding k53 by (simp add: pos_divide_le_eq)
  then have "x / u \<le> of_int (2 ^ j)" unfolding j by simp
  then have "round_half_even (x / u) \<le> round_half_even (of_int (2 ^ j))"
    by (rule round_half_even_mono)
  then have "round_half_even (x / u) \<le> 2 ^ j" by (simp only: round_half_even_of_int)
  then have "(of_int (round_half_even (x / u)) :: real) \<le> 2 ^ j"
    by (metis of_int_le_iff of_int_numeral of_int_power)
  then have "of_int (round_half_even (x / u)) * u \<le> 2 ^ j * u"
    using u by (simp add: mult_right_mono)
  then show ?thesis unfolding fl k53 j by simp
qed

lemma binary64_nonneg:
  assumes "0 \<le> x"
  shows "0 \<le> binary64 x"
proof (cases "x = 0")
  case True
  then show ?thesis by simp
next
  case False
  with assms have x: "0 < x" by simp
  define u where "u = power_int (2::real) (max \<lfloor>log 2 x\<rfloor> (- 1022) - 52)"
  have u: "0 < u" unfolding u_def by simp
  have "0 \<le> x / u" using x u by simp
  then have "round_half_even (of_int 0) \<le> round_half_even (x / u)"
    by (intro round_half_even_mono) simp
  then have "0 \<le> round_half_even (x / u)" by (simp only: round_half_even_of_int)
  then have "0 \<le> of_int (round_half_even (x / u)) * u" using u by simp
  then show ?thesis unfolding binary64_def Let_def using x by (simp add: u_def [symmetric])
qed

lemma double_overflow_above: "2 ^ 1000 < double_overflow"
  by (simp add: double_overflow_def)

lemma power_int_in_range:
  fixes x :: real
  assumes "1 \<le> x" and "x \<le> 2" and "0 \<le> n" and "n \<le> 1000"
  shows "\<bar>power_int x n\<bar> < double_overflow"
proof -
  have "x ^ nat n \<le> 2 ^ nat n" using assms(1,2) by (intro power_mono) simp_all
  also have "(2::real) ^ nat n \<le> 2 ^ 1000" using assms(4) by (intro power_increasing) simp_all
  finally have "x ^ nat n < double_overflow" using double_overflow_above by linarith
  moreover have "0 \<le> x ^ nat n" using assms(1) by simp
  ultimately show ?thesis using assms(3) by (simp add: power_int_def)
qed

lemma math_pow_in_range:
  assumes "1 \<le> x" and "x \<le> 2" and "0 \<le> n" and "n \<le> 1000"
  shows "math_pow x n = Inr (power_int x n)"
  using power_int_in_range [OF assms] assms(1) by (simp add: math_pow_def)

section \<open>The amortization engine: what it returns and when it raises\<close>

lemma calculate_emi_value:
  assumes "t \<noteq> 0"
    and "0 < rate / 100 / 12 \<Longrightarrow>
         \<bar>power_int (1 + rate / 100 / 12) (min t 25 * 12)\<bar> < double_overflow"
  shows "calculate_emi p dp rate t =
     (let dpp = max dp 20; ty = min t 25; la = p - p * (dpp / 100); r = rate / 100 / 12;
          n = ty * 12;
          e = (if r > 0 then la * r * power_int (1 + r) n / (power_int (1 + r) n - 1)
               else la / of_int n)
      in Inr [(''monthly_emi'', VFloat (py_round e 2)),
              (''total_payment'', VFloat (py_round (e * of_int n) 2)),
              (''total_interest'', VFloat (py_round (e * of_int n - la) 2)),
              (''loan_amount'', VFloat (py_round la 2)),
              (''down_payment'', VFloat (py_round (p * (dpp / 100)) 2)),
              (''tenure_months'', VInt n),
              (''tenure_years'', VInt ty),
              (''interest_rate'', VFloat rate),
              (''property_price'', VFloat p)])"
proof -
  define la where "la = p - p * (max dp 20 / 100)"
  define r where "r = rate / 100 / 12"
  define n where "n = min t 25 * 12"
  have n: "n \<noteq> 0" using assms(1) by (auto simp: n_def)
  have pw: "power_int (1 + r) n \<noteq> 1" if "0 < r"
    using power_int_gt_one_neq_one [of "1 + r" n] that n by simp
  have nz: "1 + r \<noteq> 0" if "0 < r" using that by simp
  have fin: "\<not> double_overflow \<le> \<bar>power_int (1 + r) n\<bar>" if "0 < r"
    using assms(2) that unfolding r_def n_def by simp
  show ?thesis
    unfolding calculate_emi_def Let_def MAX_TENURE_YEARS_def
      la_def [symmetric] r_def [symmetric] n_def [symmetric]
    using n pw nz fin by (simp add: then_do_def math_pow_def py_div_def)
qed

lemma calculate_emi_zero_tenure: "calculate_emi p dp rate 0 = Inl ZeroDivisionError"
proof -
  have "\<not> double_overflow \<le> (1::real)" using double_overflow_above by simp
  then show ?thesis
    unfolding calculate_emi_def
    by (simp add: Let_def then_do_def math_pow_def py_div_def MAX_TENURE_YEARS_def)
qed

lemma calculate_emi_clamped:
  "calculate_emi p dp rate t = calculate_emi p (max dp 20) rate (min t 25)"
  unfolding calculate_emi_def by (simp add: MAX_TENURE_YEARS_def)

lemma calculate_emi_returned:
  assumes "calculate_emi p dp rate t = Inr d"
  shows "\<exists>e. d =
      [(''monthly_emi'', VFloat (py_round e 2)),
       (''total_payment'', VFloat (py_round (e * of_int (min t 25 * 12)) 2)),
       (''total_interest'',
          VFloat (py_round (e * of_int (min t 25 * 12) - (p - p * (max dp 20 / 100))) 2)),
       (''loan_amount'', VFloat (py_round (p - p * (max dp 20 / 100)) 2)),
       (''down_payment'', VFloat (py_round (p * (max dp 20 / 100)) 2)),
       (''tenure_months'', VInt (min t 25 * 12)),
       (''tenure_years'', VInt (min t 25)),
       (''interest_rate'', VFloat rate),
       (''property_price'', VFloat p)]"
proof -
  define la where "la = p - p * (max dp 20 / 100)"
  define r where "r = rate / 100 / 12"
  define n where "n = min t 25 * 12"
  define m where "m =
    (if r > 0 then
       then_do (math_pow (1 + r) n) (\<lambda>p1.
       let emi_numerator = la * r * p1
       in then_do (math_pow (1 + r) n) (\<lambda>p2.
       let emi_denominator = p2 - 1
       in py_div emi_numerator emi_denominator))
     else py_div la (of_int n))"
  have c: "calculate_emi p dp rate t =
      then_do m (\<lambda>e. Inr
        [(''monthly_emi'', VFloat (py_round e 2)),
         (''total_payment'', VFloat (py_round (e * of_int n) 2)),
         (''total_interest'', VFloat (py_round (e * of_int n - la) 2)),
         (''loan_amount'', VFloat (py_round la 2)),
         (''down_payment'', VFloat (py_round (p * (max dp 20 / 100)) 2)),
         (''tenure_months'', VInt n),
         (''tenure_years'', VInt (min t 25)),
         (''interest_rate'', VFloat rate),
         (''property_price'', VFloat p)])"
    unfolding calculate_emi_def Let_def MAX_TENURE_YEARS_def m_def la_def r_def n_def ..
  show ?thesis
  proof (cases m)
    case (Inl err)
    with c assms show ?thesis by (simp add: then_do_def)
  next
    case (Inr e)
    with c assms have "d =
        [(''monthly_emi'', VFloat (py_round e 2)),
         (''total_payment'', VFloat (py_round (e * of_int n) 2)),
         (''total_interest'', VFloat (py_round (e * of_int n - la) 2)),
         (''loan_amount'', VFloat (py_round la 2)),
         (''down_payment'', VFloat (py_round (p * (max dp 20 / 100)) 2)),
         (''tenure_months'', VInt n),
         (''tenure_years'', VInt (min t 25)),
         (''interest_rate'', VFloat rate),
         (''property_price'', VFloat p)]"
      by (simp add: then_do_def)
    then show ?thesis unfolding la_def n_def by blast
  qed
qed

text \<open>
  C1 (as the specification states it): a non-positive price or tenure is rejected with an
  InvalidInput error. The code has no such check. With price \<open>-1200\<close>, 50 percent down,
  rate 0 and one year, the call returns a dict of non-positive amounts.
\<close>

theorem calculate_emi_negative_price_counterexample:
  "calculate_emi (- 1200) 50 0 1 =
     Inr [(''monthly_emi'', VFloat (- 50)),
          (''total_payment'', VFloat (- 600)),
          (''total_interest'', VFloat 0),
          (''loan_amount'', VFloat (- 600)),
          (''down_payment'', VFloat (- 600)),
          (''tenure_months'', VInt 12),
          (''tenure_years'', VInt 1),
          (''interest_rate'', VFloat 0),
          (''property_price'', VFloat (- 1200))]"
  unfolding calculate_emi_def
  by (simp add: Let_def then_do_def math_pow_def py_div_def MAX_TENURE_YEARS_def
      py_round_def round_half_even_def)

text \<open>
  C1 (amended): \<open>calculate_emi\<close> has no InvalidInput error and checks neither the price nor
  the tenure. A tenure of 0 still stops the calculation, with the \<^verbatim>\<open>ZeroDivisionError\<close>
  of the division itself. A price that is not positive is not rejected either: with a
  down payment of at most 100 percent, every result the call returns for it has a
  \<open>loan_amount\<close> that is not positive.
\<close>

theorem calculate_emi_no_validation:
  "(tenure_years = 0 \<longrightarrow>
      calculate_emi property_price down_payment_percent rate tenure_years
        = Inl ZeroDivisionError)
   \<and> (property_price \<le> 0 \<and> down_payment_percent \<le> 100 \<longrightarrow>
        (\<forall>d. calculate_emi property_price down_payment_percent rate tenure_years = Inr d \<longrightarrow>
           (\<exists>loan. getitem d ''loan_amount'' = Inr (VFloat loan) \<and> loan \<le> 0)))"
proof (intro conjI impI allI)
  assume "tenure_years = 0"
  then show "calculate_emi property_price down_payment_percent rate tenure_years
      = Inl ZeroDivisionError"
    by (simp add: calculate_emi_zero_tenure)
next
  fix d
  assume neg: "property_price \<le> 0 \<and> down_payment_percent \<le> 100"
    and ret: "calculate_emi property_price down_payment_percent rate tenure_years = Inr d"
  have "0 \<le> 1 - max down_payment_percent 20 / 100" using neg by simp
  then have "property_price * (1 - max down_payment_percent 20 / 100) \<le> 0"
    using neg by (simp add: mult_nonpos_nonneg)
  then have "property_price - property_price * (max down_payment_percent 20 / 100) \<le> 0"
    by (simp add: algebra_simps)
  then have "py_round (property_price - property_price * (max down_payment_percent 20 / 100)) 2
      \<le> 0"
    by (rule py_round_nonpos)
  moreover from calculate_emi_returned [OF ret] have
    "getitem d ''loan_amount'' = Inr (VFloat (py_round
       (property_price - property_price * (max down_payment_percent 20 / 100)) 2))"
    by (auto simp: getitem_def)
  ultimately show "\<exists>loan. getitem d ''loan_amount'' = Inr (VFloat loan) \<and> loan \<le> 0"
    by blast
qed

theorem calculate_emi_no_validation_witness:
  "calculate_emi 500000 20 (45 / 10) 0 = Inl ZeroDivisionError
   \<and> (- 1200 :: real) \<le> 0 \<and> (50 :: real) \<le> 100
   \<and> (\<exists>d. calculate_emi (- 1200) 50 0 1 = Inr d
          \<and> getitem d ''monthly_emi'' = Inr (VFloat (- 50))
          \<and> (\<exists>loan. getitem d ''loan_amount'' = Inr (VFloat loan) \<and> loan \<le> 0))"
proof -
  have zero: "calculate_emi 500000 20 (45 / 10) 0 = Inl ZeroDivisionError"
    using calculate_emi_no_validation [of 0 500000 20 "45 / 10"] by simp
  have "\<exists>d. calculate_emi (- 1200) 50 0 1 = Inr d
      \<and> getitem d ''monthly_emi'' = Inr (VFloat (- 50))"
    unfolding calculate_emi_def
    by (simp add: Let_def then_do_def math_pow_def py_div_def MAX_TENURE_YEARS_def
        py_round_def round_half_even_def getitem_def)
  then obtain d where ret: "calculate_emi (- 1200) 50 0 1 = Inr d"
    and emi: "getitem d ''monthly_emi'' = Inr (VFloat (- 50))"
    by blast
  have h: "(- 1200 :: real) \<le> 0 \<and> (50 :: real) \<le> 100" by simp
  note t = calculate_emi_no_validation [of 1 "- 1200" 50 0, THEN conjunct2]
  from t h ret have loan: "\<exists>loan. getitem d ''loan_amount'' = Inr (VFloat loan) \<and> loan \<le> 0"
    by blast
  from zero h ret emi loan show ?thesis by blast
qed

lemma calculate_emi_overflow:
  "calculate_emi p dp 12000 25 = Inl OverflowError"
proof -
  define x :: real where "x = 11"
  define n :: int where "n = 300"
  have x: "0 < x" "x \<noteq> 0" by (simp_all add: x_def)
  have "(2::real) ^ 69 \<le> x ^ 20" unfolding x_def by simp
  then have "((2::real) ^ 69) ^ 15 \<le> (x ^ 20) ^ 15" by (intro power_mono) simp_all
  then have "(2::real) ^ (69 * 15) \<le> x ^ (20 * 15)" by (simp only: power_mult)
  moreover have "(69::nat) * 15 = 1035" "(20::nat) * 15 = 300" by simp_all
  ultimately have "(2::real) ^ 1035 \<le> x ^ 300" by (simp only:)
  moreover have "(2::real) ^ 1024 \<le> 2 ^ 1035" by (intro power_increasing) simp_all
  moreover have "double_overflow \<le> 2 ^ 1024" by (simp add: double_overflow_def)
  moreover have "power_int x n = x ^ 300" unfolding n_def by simp
  ultimately have big: "double_overflow \<le> \<bar>power_int x n\<bar>" by simp
  have r: "(12000::real) / 100 / 12 = 10" "1 + (10::real) = x" "min (25::int) 25 * 12 = n"
    by (simp_all add: x_def n_def)
  show ?thesis
    unfolding calculate_emi_def Let_def MAX_TENURE_YEARS_def r
    using big x by (simp add: then_do_def math_pow_def)
qed

text \<open>
  C3 (as the specification states it): for every valid input the call returns the loan,
  the instalment and the totals. At two million, 20 percent down, 25 years and an annual
  rate of 12000 percent the monthly factor is 11 and its 300th power leaves the range of a
  double: \<^verbatim>\<open>math.pow\<close> raises and nothing is returned.
\<close>

theorem calculate_emi_amortization_counterexample:
  "calculate_emi 2000000 20 12000 25 = Inl OverflowError"
  by (rule calculate_emi_overflow)

text \<open>
  C3 (amended): for a price up to 100 million, a down payment between 0 and 100 percent, a
  rate that is 0 or between 0.1 and 100 percent a year, and at least one year, the call
  returns; \<open>tenure_months\<close> is \<open>n = clamped years * 12\<close>; the loan, the instalment (the
  annuity formula, straight-line at rate 0), the total, the interest and the down payment
  are the formulas' values to within one cent; the total is within half a cent per month
  plus a cent and a half of the returned instalment times \<open>n\<close>, and the interest within
  two cents of the returned total minus the returned loan.
\<close>

theorem calculate_emi_amortization:
  assumes "0 < property_price" and "property_price \<le> 10 ^ 8"
    and "0 \<le> down_payment_percent" and "down_payment_percent \<le> 100"
    and "annual_rate = 0 \<or> (1 / 10 \<le> annual_rate \<and> annual_rate \<le> 100)"
    and "1 \<le> tenure_years"
  shows "let res = calculate_emi property_price down_payment_percent annual_rate tenure_years;
             n = nat (min tenure_years 25 * 12);
             loanAmount = spec_loanAmount property_price (max down_payment_percent 20);
             emi = spec_EMI loanAmount (annual_rate / 100 / 12) n
         in \<exists>la me tp ti dn.
              result_item res ''loan_amount'' = Inr (VFloat la)
            \<and> result_item res ''monthly_emi'' = Inr (VFloat me)
            \<and> result_item res ''total_payment'' = Inr (VFloat tp)
            \<and> result_item res ''total_interest'' = Inr (VFloat ti)
            \<and> result_item res ''down_payment'' = Inr (VFloat dn)
            \<and> result_item res ''tenure_months'' = Inr (VInt (int n))
            \<and> \<bar>la - loanAmount\<bar> \<le> 1 / 100
            \<and> \<bar>me - emi\<bar> \<le> 1 / 100
            \<and> \<bar>tp - emi * real n\<bar> \<le> 1 / 100
            \<and> \<bar>ti - (emi * real n - loanAmount)\<bar> \<le> 1 / 100
            \<and> \<bar>dn - property_price * (max down_payment_percent 20 / 100)\<bar> \<le> 1 / 100
            \<and> \<bar>tp - me * real n\<bar> \<le> (real n + 3) / 200
            \<and> \<bar>ti - (tp - la)\<bar> \<le> 2 / 100"
proof -
  define n where "n = nat (min tenure_years 25 * 12)"
  define loanAmount where "loanAmount = spec_loanAmount property_price (max down_payment_percent 20)"
  define r where "r = annual_rate / 100 / 12"
  define emi where "emi = spec_EMI loanAmount r n"
  define dpay where "dpay = property_price * (max down_payment_percent 20 / 100)"
  have t: "tenure_years \<noteq> 0" and n_int: "min tenure_years 25 * 12 = int n"
    using assms(6) by (simp_all add: n_def)
  have r0: "0 \<le> r" and r1: "r \<le> 1" using assms(5) by (auto simp: r_def)
  have fin: "\<bar>power_int (1 + annual_rate / 100 / 12) (min tenure_years 25 * 12)\<bar>
      < double_overflow"
    using power_int_in_range [of "1 + r" "min tenure_years 25 * 12"] r0 r1 assms(6)
    by (simp add: r_def)
  have la: "property_price - dpay = loanAmount"
    by (simp add: loanAmount_def spec_loanAmount_def dpay_def algebra_simps)
  have e: "(if r > 0 then loanAmount * r * power_int (1 + r) (int n) / (power_int (1 + r) (int n) - 1)
            else loanAmount / of_int (int n)) = emi"
    using r0 by (auto simp: emi_def spec_EMI_def)
  have val: "calculate_emi property_price down_payment_percent annual_rate tenure_years =
      Inr [(''monthly_emi'', VFloat (py_round emi 2)),
           (''total_payment'', VFloat (py_round (emi * real n) 2)),
           (''total_interest'', VFloat (py_round (emi * real n - loanAmount) 2)),
           (''loan_amount'', VFloat (py_round loanAmount 2)),
           (''down_payment'', VFloat (py_round dpay 2)),
           (''tenure_months'', VInt (int n)),
           (''tenure_years'', VInt (min tenure_years 25)),
           (''interest_rate'', VFloat annual_rate),
           (''property_price'', VFloat property_price)]"
    using calculate_emi_value [OF t fin, of property_price down_payment_percent]
    unfolding Let_def dpay_def [symmetric] la n_int r_def [symmetric] e by simp
  have cent: "\<bar>py_round x 2 - x\<bar> \<le> 1 / 100" for x
    using py_round2_error [of x] by simp
  have tol1: "\<bar>py_round (emi * real n) 2 - py_round emi 2 * real n\<bar> \<le> (real n + 3) / 200"
  proof -
    have a: "\<bar>py_round (emi * real n) 2 - emi * real n\<bar> \<le> 5 / 1000"
      by (rule py_round2_error)
    have "\<bar>py_round emi 2 - emi\<bar> * real n \<le> 5 / 1000 * real n"
      by (intro mult_right_mono py_round2_error) simp
    then have c: "\<bar>py_round emi 2 * real n - emi * real n\<bar> \<le> 5 / 1000 * real n"
      by (simp add: abs_mult flip: left_diff_distrib)
    have "5 / 1000 + 5 / 1000 * real n \<le> (real n + 3) / 200" by simp
    with a c show ?thesis by linarith
  qed
  have tol2: "\<bar>py_round (emi * real n - loanAmount) 2
      - (py_round (emi * real n) 2 - py_round loanAmount 2)\<bar> \<le> 2 / 100"
    using py_round2_error [of "emi * real n - loanAmount"] py_round2_error [of "emi * real n"]
      py_round2_error [of loanAmount]
    by linarith
  have items:
    "result_item (calculate_emi property_price down_payment_percent annual_rate tenure_years)
       ''loan_amount'' = Inr (VFloat (py_round loanAmount 2))"
    "result_item (calculate_emi property_price down_payment_percent annual_rate tenure_years)
       ''monthly_emi'' = Inr (VFloat (py_round emi 2))"
    "result_item (calculate_emi property_price down_payment_percent annual_rate tenure_years)
       ''total_payment'' = Inr (VFloat (py_round (emi * real n) 2))"
    "result_item (calculate_emi property_price down_payment_percent annual_rate tenure_years)
       ''total_interest'' = Inr (VFloat (py_round (emi * real n - loanAmount) 2))"
    "result_item (calculate_emi property_price down_payment_percent annual_rate tenure_years)
       ''down_payment'' = Inr (VFloat (py_round dpay 2))"
    "result_item (calculate_emi property_price down_payment_percent annual_rate tenure_years)
       ''tenure_months'' = Inr (VInt (int n))"
    unfolding val by (simp_all add: result_item_def then_do_def getitem_def)
  note bounds = cent [of loanAmount] cent [of emi] cent [of "emi * real n"]
    cent [of "emi * real n - loanAmount"] cent [of dpay] tol1 tol2
  show ?thesis
    unfolding Let_def n_def [symmetric] loanAmount_def [symmetric] r_def [symmetric]
      emi_def [symmetric] dpay_def [symmetric]
    using items bounds by blast
qed

theorem calculate_emi_amortization_witness:
  "(0::real) < 100000 \<and> (100000::real) \<le> 10 ^ 8 \<and> (0::real) \<le> 20 \<and> (20::real) \<le> 100
   \<and> ((12::real) = 0 \<or> (1 / 10 \<le> (12::real) \<and> (12::real) \<le> 100)) \<and> (1::int) \<le> 1
   \<and> result_item (calculate_emi 100000 20 12 1) ''loan_amount'' = Inr (VFloat 80000)
   \<and> result_item (calculate_emi 100000 20 12 1) ''monthly_emi'' = Inr (VFloat (71079 / 10))
   \<and> result_item (calculate_emi 100000 20 12 1) ''tenure_months'' = Inr (VInt 12)
   \<and> (let res = calculate_emi 100000 20 12 1;
            n = nat (min 1 25 * 12);
            loanAmount = spec_loanAmount 100000 (max 20 20);
            emi = spec_EMI loanAmount (12 / 100 / 12) n
        in \<exists>la me tp ti dn.
              result_item res ''loan_amount'' = Inr (VFloat la)
            \<and> result_item res ''monthly_emi'' = Inr (VFloat me)
            \<and> result_item res ''total_payment'' = Inr (VFloat tp)
            \<and> result_item res ''total_interest'' = Inr (VFloat ti)
            \<and> result_item res ''down_payment'' = Inr (VFloat dn)
            \<and> result_item res ''tenure_months'' = Inr (VInt (int n))
            \<and> \<bar>la - loanAmount\<bar> \<le> 1 / 100
            \<and> \<bar>me - emi\<bar> \<le> 1 / 100
            \<and> \<bar>tp - emi * real n\<bar> \<le> 1 / 100
            \<and> \<bar>ti - (emi * real n - loanAmount)\<bar> \<le> 1 / 100
            \<and> \<bar>dn - 100000 * (max 20 20 / 100)\<bar> \<le> 1 / 100
            \<and> \<bar>tp - me * real n\<bar> \<le> (real n + 3) / 200
            \<and> \<bar>ti - (tp - la)\<bar> \<le> 2 / 100)"
proof -
  have h: "(0::real) < 100000" "(100000::real) \<le> 10 ^ 8" "(0::real) \<le> 20" "(20::real) \<le> 100"
    "(12::real) = 0 \<or> (1 / 10 \<le> (12::real) \<and> (12::real) \<le> 100)" "(1::int) \<le> 1"
    by simp_all
  have fin: "\<bar>power_int (1 + 12 / 100 / 12) (min 1 25 * 12)\<bar> < double_overflow"
    using power_int_in_range [of "1 + 12 / 100 / 12" "min 1 25 * 12"] by simp
  have "py_round (80000 * (101 / 100) ^ 12 / (100 * (101 / 100) ^ 12 - 100)) 2
      = of_int 710790 / 10 ^ 2"
    by (rule py_round_eqI) (simp_all add: power_divide)
  then have r1: "py_round (80000 * (101 / 100) ^ 12 / (100 * (101 / 100) ^ 12 - 100)) 2
      = 71079 / 10"
    by simp
  have r4: "py_round 80000 2 = 80000"
    using py_round_eqI [of 8000000 80000 2] by simp
  have v: "result_item (calculate_emi 100000 20 12 1) ''loan_amount'' = Inr (VFloat 80000)"
    "result_item (calculate_emi 100000 20 12 1) ''monthly_emi'' = Inr (VFloat (71079 / 10))"
    "result_item (calculate_emi 100000 20 12 1) ''tenure_months'' = Inr (VInt 12)"
    using calculate_emi_value [of 1 12 100000 20, OF _ fin] r1 r4
    by (simp_all add: Let_def result_item_def then_do_def getitem_def)
  note c = calculate_emi_amortization [OF h]
  show ?thesis by (intro conjI h v c)
qed

text \<open>
  C5 (as the specification states it): the call never fails for out-of-policy inputs. With
  10 percent down, inside the claim's inputs, and a rate of 12000 percent over 25 years it
  fails with \<^verbatim>\<open>OverflowError\<close>.
\<close>

theorem calculate_emi_clamp_idempotent_counterexample:
  "calculate_emi 1000000 10 12000 25 = Inl OverflowError"
  by (rule calculate_emi_overflow)

text \<open>
  C5 (amended): for a positive price, a rate that is not negative and at least one year, a
  down payment below 20 percent has exactly the outcome of 20 percent, the same dict or
  the same exception, and so has any call and the call with \<open>max(percent, 20)\<close> and
  \<open>min(years, 25)\<close>: the clamps act before anything is computed and cause no failure of
  their own. That they are these clamps shows in every returned dict, for any percent and
  any years: \<open>tenure_years\<close> is \<open>min(years, 25)\<close>, \<open>tenure_months\<close> is twelve times
  that, and \<open>down_payment\<close> is the price times \<open>max(percent, 20) / 100\<close> up to the rounding
  to cents.
\<close>

theorem calculate_emi_clamp_idempotent:
  assumes "0 < property_price" and "0 \<le> annual_rate" and "1 \<le> tenure_years"
    and "down_payment_percent < 20"
  shows "calculate_emi property_price down_payment_percent annual_rate tenure_years =
           calculate_emi property_price 20 annual_rate tenure_years
       \<and> calculate_emi property_price down_payment_percent annual_rate tenure_years =
           calculate_emi property_price (max down_payment_percent 20) annual_rate
             (min tenure_years 25)
       \<and> (property_price * any_percent \<le> 10 ^ 300 \<longrightarrow>
            (\<forall>d. calculate_emi property_price any_percent annual_rate any_years = Inr d \<longrightarrow>
               getitem d ''tenure_years'' = Inr (VInt (min any_years 25))
             \<and> getitem d ''tenure_months'' = Inr (VInt (min any_years 25 * 12))
             \<and> (\<exists>dn. getitem d ''down_payment'' = Inr (VFloat dn)
                  \<and> \<bar>dn - property_price * (max any_percent 20 / 100)\<bar>
                      \<le> 5 / 1000 + \<bar>property_price * (max any_percent 20 / 100)\<bar> / 10 ^ 12)))"
proof -
  have "max down_payment_percent 20 = 20" using assms(4) by simp
  then have same: "calculate_emi property_price down_payment_percent annual_rate tenure_years =
             calculate_emi property_price 20 annual_rate tenure_years"
    using calculate_emi_clamped [of property_price down_payment_percent annual_rate tenure_years]
      calculate_emi_clamped [of property_price 20 annual_rate tenure_years]
    by simp
  have pin: "getitem d ''tenure_years'' = Inr (VInt (min any_years 25))
      \<and> getitem d ''tenure_months'' = Inr (VInt (min any_years 25 * 12))
      \<and> (\<exists>dn. getitem d ''down_payment'' = Inr (VFloat dn)
           \<and> \<bar>dn - property_price * (max any_percent 20 / 100)\<bar>
               \<le> 5 / 1000 + \<bar>property_price * (max any_percent 20 / 100)\<bar> / 10 ^ 12)"
    if ret: "calculate_emi property_price any_percent annual_rate any_years = Inr d" for d
  proof -
    have "\<bar>py_round (property_price * (max any_percent 20 / 100)) 2
          - property_price * (max any_percent 20 / 100)\<bar> \<le> 5 / 1000"
      by (rule py_round2_error)
    moreover have "0 \<le> \<bar>property_price * (max any_percent 20 / 100)\<bar> / 10 ^ 12" by simp
    ultimately have "\<bar>py_round (property_price * (max any_percent 20 / 100)) 2
          - property_price * (max any_percent 20 / 100)\<bar>
        \<le> 5 / 1000 + \<bar>property_price * (max any_percent 20 / 100)\<bar> / 10 ^ 12"
      by linarith
    with calculate_emi_returned [OF ret] show ?thesis
      by (auto simp: getitem_def)
  qed
  show ?thesis
    using same pin
      calculate_emi_clamped [of property_price down_payment_percent annual_rate tenure_years]
    by blast
qed

theorem calculate_emi_clamp_idempotent_witness:
  "(0::real) < 1000000 \<and> (0::real) \<le> 0 \<and> (1::int) \<le> 35 \<and> (10::real) < 20
   \<and> (1000000::real) * 30 \<le> 10 ^ 300
   \<and> calculate_emi 1000000 10 0 35 = calculate_emi 1000000 20 0 35
   \<and> calculate_emi 1000000 10 0 35 = calculate_emi 1000000 (max 10 20) 0 (min 35 25)
   \<and> result_item (calculate_emi 1000000 10 0 35) ''down_payment'' = Inr (VFloat 200000)
   \<and> result_item (calculate_emi 1000000 10 0 35) ''tenure_months'' = Inr (VInt 300)
   \<and> (\<exists>d. calculate_emi 1000000 30 0 10 = Inr d
        \<and> getitem d ''tenure_years'' = Inr (VInt 10)
        \<and> getitem d ''tenure_months'' = Inr (VInt 120)
        \<and> getitem d ''down_payment'' = Inr (VFloat 300000))"
proof -
  have v: "calculate_emi 1000000 10 0 35 =
     Inr [(''monthly_emi'', VFloat (266667 / 100)),
          (''total_payment'', VFloat 800000),
          (''total_interest'', VFloat 0),
          (''loan_amount'', VFloat 800000),
          (''down_payment'', VFloat 200000),
          (''tenure_months'', VInt 300),
          (''tenure_years'', VInt 25),
          (''interest_rate'', VFloat 0),
          (''property_price'', VFloat 1000000)]"
    unfolding calculate_emi_def
    by (simp add: Let_def then_do_def math_pow_def py_div_def MAX_TENURE_YEARS_def
        py_round_def round_half_even_def)
  have w: "\<exists>d. calculate_emi 1000000 30 0 10 = Inr d"
    unfolding calculate_emi_def
    by (simp add: Let_def then_do_def math_pow_def py_div_def MAX_TENURE_YEARS_def)
  then obtain d where d: "calculate_emi 1000000 30 0 10 = Inr d" ..
  have dn: "getitem d ''down_payment'' = Inr (VFloat 300000)"
    using calculate_emi_returned [OF d] py_round_eqI [of 30000000 300000 2]
    by (auto simp: getitem_def)
  have h: "(0::real) < 1000000" "(0::real) \<le> 0" "(1::int) \<le> 35" "(10::real) < 20"
    by simp_all
  have big: "(1000000::real) * 30 \<le> 10 ^ 300" by simp
  note c = calculate_emi_clamp_idempotent [OF h, of 30 10]
  from c big d have "getitem d ''tenure_years'' = Inr (VInt (min 10 25))
      \<and> getitem d ''tenure_months'' = Inr (VInt (min 10 25 * 12))"
    by blast
  then have ty: "getitem d ''tenure_years'' = Inr (VInt 10)"
    "getitem d ''tenure_months'' = Inr (VInt 120)" by simp_all
  have pinned: "\<exists>d. calculate_emi 1000000 30 0 10 = Inr d
        \<and> getitem d ''tenure_years'' = Inr (VInt 10)
        \<and> getitem d ''tenure_months'' = Inr (VInt 120)
        \<and> getitem d ''down_payment'' = Inr (VFloat 300000)"
    using d ty dn by blast
  show ?thesis
    by (intro conjI h big c [THEN conjunct1] c [THEN conjunct2, THEN conjunct1] pinned)
      (simp_all add: v result_item_def then_do_def getitem_def)
qed

section \<open>The upfront cost calculator: fees and cash needed\<close>

lemmas upfront_defs =
  calculate_upfront_costs_def TRANSFER_FEE_PERCENT_def AGENCY_FEE_PERCENT_def
  MISC_FEES_PERCENT_def TOTAL_UPFRONT_COSTS_PERCENT_def

lemma py_round2_within: "\<bar>py_round x 2 - x\<bar> \<le> 5 / 1000 + \<bar>x\<bar> / 10 ^ 12"
proof -
  have "0 \<le> \<bar>x\<bar> / 10 ^ 12" by simp
  with py_round2_error [of x] show ?thesis by linarith
qed

text \<open>
  C4: for a down payment of at least 20 percent, and figures within the range of a double,
  the reported transfer, agency and miscellaneous fees are 4, 2 and 1 percent of the price
  and the reported cash needed is the down payment plus 7 percent of the price, each to
  the cent: within half a cent, and one part in \<open>10\<^sup>1\<^sup>2\<close> for the double arithmetic, of
  the exact figure. The reported total differs from the sum of the four reported parts by
  at most two and a half cents and one part in \<open>10\<^sup>1\<^sup>1\<close>. At two million with 20
  percent down the figures are 400,000, 80,000, 40,000, 20,000 and 540,000.
\<close>

theorem calculate_upfront_costs_fees:
  assumes "20 \<le> down_payment_percent"
    and "\<bar>property_price\<bar> * down_payment_percent \<le> 10 ^ 300"
  shows "let res = calculate_upfront_costs property_price down_payment_percent;
             downPayment = property_price * (down_payment_percent / 100);
             cash = downPayment + 7 / 100 * property_price
         in (\<exists>dn tf af mf total.
                getitem res ''down_payment'' = Inr (VFloat dn)
              \<and> getitem res ''transfer_fee'' = Inr (VFloat tf)
              \<and> getitem res ''agency_fee'' = Inr (VFloat af)
              \<and> getitem res ''misc_fees'' = Inr (VFloat mf)
              \<and> getitem res ''total_cash_needed'' = Inr (VFloat total)
              \<and> \<bar>dn - downPayment\<bar> \<le> 5 / 1000 + \<bar>downPayment\<bar> / 10 ^ 12
              \<and> \<bar>tf - property_price * (4 / 100)\<bar>
                  \<le> 5 / 1000 + \<bar>property_price * (4 / 100)\<bar> / 10 ^ 12
              \<and> \<bar>af - property_price * (2 / 100)\<bar>
                  \<le> 5 / 1000 + \<bar>property_price * (2 / 100)\<bar> / 10 ^ 12
              \<and> \<bar>mf - property_price * (1 / 100)\<bar>
                  \<le> 5 / 1000 + \<bar>property_price * (1 / 100)\<bar> / 10 ^ 12
              \<and> \<bar>total - cash\<bar> \<le> 5 / 1000 + \<bar>cash\<bar> / 10 ^ 12
              \<and> \<bar>total - (dn + tf + af + mf)\<bar> \<le> 25 / 1000 + \<bar>cash\<bar> / 10 ^ 11)
          \<and> getitem (calculate_upfront_costs 2000000 20) ''down_payment'' = Inr (VFloat 400000)
          \<and> getitem (calculate_upfront_costs 2000000 20) ''transfer_fee'' = Inr (VFloat 80000)
          \<and> getitem (calculate_upfront_costs 2000000 20) ''agency_fee'' = Inr (VFloat 40000)
          \<and> getitem (calculate_upfront_costs 2000000 20) ''misc_fees'' = Inr (VFloat 20000)
          \<and> getitem (calculate_upfront_costs 2000000 20) ''total_cash_needed''
               = Inr (VFloat 540000)"
proof -
  define d where "d = property_price * (down_payment_percent / 100)"
  define c where "c = d + 7 / 100 * property_price"
  define tf where "tf = property_price * (4 / 100)"
  define af where "af = property_price * (2 / 100)"
  define mf where "mf = property_price * (1 / 100)"
  have m: "max down_payment_percent 20 = down_payment_percent" using assms(1) by simp
  have s: "d + (tf + af + mf) = c" by (simp add: c_def tf_def af_def mf_def)
  have "\<bar>py_round c 2 - (py_round d 2 + py_round tf 2 + py_round af 2 + py_round mf 2)\<bar>
      \<le> 25 / 1000"
    using py_round2_error [of c] py_round2_error [of d] py_round2_error [of tf]
      py_round2_error [of af] py_round2_error [of mf] s
    by linarith
  moreover have "0 \<le> \<bar>c\<bar> / 10 ^ 11" by simp
  ultimately have tol:
    "\<bar>py_round c 2 - (py_round d 2 + py_round tf 2 + py_round af 2 + py_round mf 2)\<bar>
      \<le> 25 / 1000 + \<bar>c\<bar> / 10 ^ 11"
    by linarith
  have r: "py_round 400000 2 = 400000" "py_round 80000 2 = 80000" "py_round 40000 2 = 40000"
    "py_round 20000 2 = 20000" "py_round 540000 2 = 540000"
    using py_round_of_int [of 400000 2] py_round_of_int [of 80000 2]
      py_round_of_int [of 40000 2] py_round_of_int [of 20000 2] py_round_of_int [of 540000 2]
    by simp_all
  have items: "getitem (calculate_upfront_costs property_price down_payment_percent)
        ''down_payment'' = Inr (VFloat (py_round d 2))"
    "getitem (calculate_upfront_costs property_price down_payment_percent)
        ''transfer_fee'' = Inr (VFloat (py_round tf 2))"
    "getitem (calculate_upfront_costs property_price down_payment_percent)
        ''agency_fee'' = Inr (VFloat (py_round af 2))"
    "getitem (calculate_upfront_costs property_price down_payment_percent)
        ''misc_fees'' = Inr (VFloat (py_round mf 2))"
    "getitem (calculate_upfront_costs property_price down_payment_percent)
        ''total_cash_needed'' = Inr (VFloat (py_round c 2))"
    unfolding upfront_defs Let_def m d_def [symmetric] tf_def [symmetric] af_def [symmetric]
      mf_def [symmetric] s
    by (simp_all add: getitem_def)
  have scenario:
    "getitem (calculate_upfront_costs 2000000 20) ''down_payment'' = Inr (VFloat 400000)"
    "getitem (calculate_upfront_costs 2000000 20) ''transfer_fee'' = Inr (VFloat 80000)"
    "getitem (calculate_upfront_costs 2000000 20) ''agency_fee'' = Inr (VFloat 40000)"
    "getitem (calculate_upfront_costs 2000000 20) ''misc_fees'' = Inr (VFloat 20000)"
    "getitem (calculate_upfront_costs 2000000 20) ''total_cash_needed'' = Inr (VFloat 540000)"
    unfolding upfront_defs Let_def by (simp_all add: getitem_def r)
  note bounds = py_round2_within [of d] py_round2_within [of tf] py_round2_within [of af]
    py_round2_within [of mf] py_round2_within [of c] tol
  have general: "\<exists>dn tf' af' mf' total.
        getitem (calculate_upfront_costs property_price down_payment_percent)
          ''down_payment'' = Inr (VFloat dn)
      \<and> getitem (calculate_upfront_costs property_price down_payment_percent)
          ''transfer_fee'' = Inr (VFloat tf')
      \<and> getitem (calculate_upfront_costs property_price down_payment_percent)
          ''agency_fee'' = Inr (VFloat af')
      \<and> getitem (calculate_upfront_costs property_price down_payment_percent)
          ''misc_fees'' = Inr (VFloat mf')
      \<and> getitem (calculate_upfront_costs property_price down_payment_percent)
          ''total_cash_needed'' = Inr (VFloat total)
      \<and> \<bar>dn - d\<bar> \<le> 5 / 1000 + \<bar>d\<bar> / 10 ^ 12
      \<and> \<bar>tf' - tf\<bar> \<le> 5 / 1000 + \<bar>tf\<bar> / 10 ^ 12
      \<and> \<bar>af' - af\<bar> \<le> 5 / 1000 + \<bar>af\<bar> / 10 ^ 12
      \<and> \<bar>mf' - mf\<bar> \<le> 5 / 1000 + \<bar>mf\<bar> / 10 ^ 12
      \<and> \<bar>total - c\<bar> \<le> 5 / 1000 + \<bar>c\<bar> / 10 ^ 12
      \<and> \<bar>total - (dn + tf' + af' + mf')\<bar> \<le> 25 / 1000 + \<bar>c\<bar> / 10 ^ 11"
    using items bounds by blast
  show ?thesis
    unfolding Let_def d_def [symmetric] c_def [symmetric] tf_def [symmetric]
      af_def [symmetric] mf_def [symmetric]
    by (intro conjI general scenario)
qed

theorem calculate_upfront_costs_fees_witness:
  "(20::real) \<le> 25 \<and> \<bar>1000000::real\<bar> * 25 \<le> 10 ^ 300
   \<and> getitem (calculate_upfront_costs 1000000 25) ''down_payment'' = Inr (VFloat 250000)
   \<and> getitem (calculate_upfront_costs 1000000 25) ''total_cash_needed'' = Inr (VFloat 320000)
   \<and> (let res = calculate_upfront_costs 1000000 25;
            downPayment = 1000000 * (25 / 100);
            cash = downPayment + 7 / 100 * 1000000
        in (\<exists>dn tf af mf total.
                getitem res ''down_payment'' = Inr (VFloat dn)
              \<and> getitem res ''transfer_fee'' = Inr (VFloat tf)
              \<and> getitem res ''agency_fee'' = Inr (VFloat af)
              \<and> getitem res ''misc_fees'' = Inr (VFloat mf)
              \<and> getitem res ''total_cash_needed'' = Inr (VFloat total)
              \<and> \<bar>dn - downPayment\<bar> \<le> 5 / 1000 + \<bar>downPayment\<bar> / 10 ^ 12
              \<and> \<bar>tf - 1000000 * (4 / 100)\<bar> \<le> 5 / 1000 + \<bar>1000000 * (4 / 100)\<bar> / 10 ^ 12
              \<and> \<bar>af - 1000000 * (2 / 100)\<bar> \<le> 5 / 1000 + \<bar>1000000 * (2 / 100)\<bar> / 10 ^ 12
              \<and> \<bar>mf - 1000000 * (1 / 100)\<bar> \<le> 5 / 1000 + \<bar>1000000 * (1 / 100)\<bar> / 10 ^ 12
              \<and> \<bar>total - cash\<bar> \<le> 5 / 1000 + \<bar>cash\<bar> / 10 ^ 12
              \<and> \<bar>total - (dn + tf + af + mf)\<bar> \<le> 25 / 1000 + \<bar>cash\<bar> / 10 ^ 11)
          \<and> getitem (calculate_upfront_costs 2000000 20) ''down_payment'' = Inr (VFloat 400000)
          \<and> getitem (calculate_upfront_costs 2000000 20) ''transfer_fee'' = Inr (VFloat 80000)
          \<and> getitem (calculate_upfront_costs 2000000 20) ''agency_fee'' = Inr (VFloat 40000)
          \<and> getitem (calculate_upfront_costs 2000000 20) ''misc_fees'' = Inr (VFloat 20000)
          \<and> getitem (calculate_upfront_costs 2000000 20) ''total_cash_needed''
               = Inr (VFloat 540000))"
proof -
  have h: "(20::real) \<le> 25" "\<bar>1000000::real\<bar> * 25 \<le> 10 ^ 300" by simp_all
  have r: "py_round 250000 2 = 250000" "py_round 320000 2 = 320000"
    using py_round_of_int [of 250000 2] py_round_of_int [of 320000 2] by simp_all
  have v: "getitem (calculate_upfront_costs 1000000 25) ''down_payment'' = Inr (VFloat 250000)"
    "getitem (calculate_upfront_costs 1000000 25) ''total_cash_needed'' = Inr (VFloat 320000)"
    unfolding upfront_defs Let_def by (simp_all add: getitem_def r)
  note c = calculate_upfront_costs_fees [OF h]
  show ?thesis by (intro conjI h v c)
qed

section \<open>The affordability engine: results, monotonicity and the reported ratio\<close>

lemma calculate_affordability_not_affordable:
  assumes "monthly_income * (max_dti_ratio / 100) - existing_debts \<le> 0"
  shows "calculate_affordability monthly_income monthly_expenses existing_debts max_dti_ratio =
     Inr [(''is_affordable'', VBool False),
          (''max_emi'', VInt 0),
          (''max_loan_amount'', VInt 0),
          (''max_property_price'', VInt 0),
          (''dti_ratio'', VInt 100),
          (''warning'', VStr '' Your existing debts are too high. You need to reduce debts before considering a mortgage.'')]"
  using assms unfolding calculate_affordability_def Let_def by simp

lemma tool_assess_affordability_not_affordable:
  assumes "monthly_income * (50 / 100) - existing_monthly_debts \<le> 0"
  shows "tool_assess_affordability monthly_income existing_monthly_debts desired_property_price
           = Inl (KeyError ''comfortable_property_price'')"
  unfolding tool_assess_affordability_def calculate_affordability_not_affordable [OF assms]
  by (simp add: then_do_def getitem_def format_value_f_def)

text \<open>
  C2: with zero income and no debts \<open>calculate_affordability\<close> returns the not-affordable
  dict, as the claim says, but \<open>tool_assess_affordability\<close> does not return a string for
  it: it reads the key \<open>comfortable_property_price\<close>, which that dict does not have, and
  raises \<^verbatim>\<open>KeyError\<close>.
\<close>

theorem tool_assess_affordability_zero_income_raises:
  "calculate_affordability 0 0 0 50 =
     Inr [(''is_affordable'', VBool False),
          (''max_emi'', VInt 0),
          (''max_loan_amount'', VInt 0),
          (''max_property_price'', VInt 0),
          (''dti_ratio'', VInt 100),
          (''warning'', VStr '' Your existing debts are too high. You need to reduce debts before considering a mortgage.'')]
   \<and> tool_assess_affordability 0 0 0 = Inl (KeyError ''comfortable_property_price'')"
  unfolding tool_assess_affordability_def calculate_affordability_def
  by (simp add: then_do_def getitem_def format_value_f_def)

lemma default_rate_pos: "0 < (DEFAULT_INTEREST_RATE / 100) / 12"
  by (simp add: DEFAULT_INTEREST_RATE_def)

lemma loan_multiplier_pos: "0 < loan_multiplier"
proof -
  define r where "r = (DEFAULT_INTEREST_RATE / 100) / 12"
  have r: "0 < r" unfolding r_def by (rule default_rate_pos)
  then have "1 < (1 + r) ^ 300" by (simp add: one_less_power)
  then have "0 < ((1 + r) ^ 300 - 1) / (r * (1 + r) ^ 300)" using r by simp
  then show ?thesis unfolding loan_multiplier_def r_def by simp
qed

lemma calculate_affordability_affordable:
  assumes "0 < monthly_income * (max_dti_ratio / 100) - existing_debts"
    and "monthly_income \<noteq> 0"
  shows "calculate_affordability monthly_income monthly_expenses existing_debts max_dti_ratio =
     (let max_emi = monthly_income * (max_dti_ratio / 100) - existing_debts;
          max_property_price = max_emi * loan_multiplier / MAX_LTV_EXPAT
      in Inr [(''is_affordable'', VBool True),
              (''max_emi'', VFloat (py_round max_emi 2)),
              (''recommended_emi'', VFloat (py_round (max_emi * (7 / 10)) 2)),
              (''max_loan_amount'', VFloat (py_round (max_emi * loan_multiplier) 2)),
              (''max_property_price'', VFloat (py_round max_property_price 2)),
              (''comfortable_property_price'',
                 VFloat (py_round (max_property_price * (7 / 10)) 2)),
              (''dti_ratio'', VFloat (py_round max_dti_ratio 1)),
              (''monthly_income'', VFloat monthly_income),
              (''existing_debts'', VFloat existing_debts),
              (''note'', VStr '' Comfortable budget is 70% of maximum to leave room for emergencies.'')])"
proof -
  define r where "r = (DEFAULT_INTEREST_RATE / 100) / 12"
  define e where "e = monthly_income * (max_dti_ratio / 100) - existing_debts"
  have r: "0 < r" unfolding r_def by (rule default_rate_pos)
  then have nz: "r * power_int (1 + r) 300 \<noteq> 0" by simp
  have "r \<le> 1" by (simp add: r_def DEFAULT_INTEREST_RATE_def)
  with r have mp: "math_pow (1 + r) 300 = Inr (power_int (1 + r) 300)"
    using math_pow_in_range [of "1 + r" 300] by simp
  have ltv: "MAX_LTV_EXPAT \<noteq> 0" by (simp add: MAX_LTV_EXPAT_def)
  have e: "\<not> e \<le> 0" using assms(1) by (simp add: e_def)
  have q: "(e + existing_debts) / monthly_income * 100 = max_dti_ratio"
    using assms(2) by (simp add: e_def)
  have m: "(power_int (1 + r) 300 - 1) / (r * power_int (1 + r) 300) = loan_multiplier"
    by (simp add: loan_multiplier_def r_def)
  have twelve: "(25::int) * 12 = 300" by simp
  show ?thesis
    unfolding calculate_affordability_def Let_def r_def [symmetric] e_def [symmetric] twelve
    using e nz ltv assms(2)
    by (simp only: then_do_def mp py_div_def if_False if_True sum.case m q simp_thms)
qed

lemma max_property_price_value:
  assumes "0 \<le> monthly_income" and "0 \<le> existing_debts"
  shows "max_property_price_of
           (calculate_affordability monthly_income monthly_expenses existing_debts max_dti_ratio)
         = Inr (if monthly_income * (max_dti_ratio / 100) - existing_debts \<le> 0 then 0
                else py_round ((monthly_income * (max_dti_ratio / 100) - existing_debts)
                                 * loan_multiplier / MAX_LTV_EXPAT) 2)"
proof (cases "monthly_income * (max_dti_ratio / 100) - existing_debts \<le> 0")
  case True
  then show ?thesis
    unfolding calculate_affordability_not_affordable [OF True]
    by (simp add: max_property_price_of_def result_item_def then_do_def getitem_def num_of_def)
next
  case False
  then have pos: "0 < monthly_income * (max_dti_ratio / 100) - existing_debts" by simp
  have "monthly_income \<noteq> 0"
  proof
    assume "monthly_income = 0"
    with pos assms(2) show False by simp
  qed
  from calculate_affordability_affordable [OF pos this] False show ?thesis
    by (simp add: Let_def max_property_price_of_def result_item_def then_do_def getitem_def
        num_of_def)
qed

lemma price_of_payment_mono:
  assumes "a \<le> b"
  shows "(if a \<le> 0 then 0 else py_round (a * loan_multiplier / MAX_LTV_EXPAT) 2)
       \<le> (if b \<le> 0 then 0 else py_round (b * loan_multiplier / MAX_LTV_EXPAT) 2)"
proof -
  have k: "0 < loan_multiplier / MAX_LTV_EXPAT"
    using loan_multiplier_pos by (simp add: MAX_LTV_EXPAT_def)
  have nonneg: "0 \<le> py_round (x * loan_multiplier / MAX_LTV_EXPAT) 2" if "0 < x" for x
  proof -
    have "0 \<le> x * (loan_multiplier / MAX_LTV_EXPAT)"
      using mult_nonneg_nonneg [of x "loan_multiplier / MAX_LTV_EXPAT"] that k by simp
    then show ?thesis using py_round_nonneg [of "x * loan_multiplier / MAX_LTV_EXPAT" 2] by simp
  qed
  have mono: "py_round (a * loan_multiplier / MAX_LTV_EXPAT) 2
      \<le> py_round (b * loan_multiplier / MAX_LTV_EXPAT) 2"
  proof (rule py_round_mono)
    have "a * (loan_multiplier / MAX_LTV_EXPAT) \<le> b * (loan_multiplier / MAX_LTV_EXPAT)"
      using mult_right_mono [of a b "loan_multiplier / MAX_LTV_EXPAT"] assms k by simp
    then show "a * loan_multiplier / MAX_LTV_EXPAT \<le> b * loan_multiplier / MAX_LTV_EXPAT"
      by simp
  qed
  show ?thesis
  proof (cases "a \<le> 0")
    case True
    then show ?thesis using nonneg [of b] by auto
  next
    case False
    with assms have "\<not> b \<le> 0" by simp
    with False mono show ?thesis by simp
  qed
qed

text \<open>
  C7: with income and debts not negative, and whatever the expenses and the ratio cap, the
  call returns, a higher income never lowers \<open>max_property_price\<close> and higher debts
  never raise it, also across the change to the not-affordable result, whose price is 0.
\<close>

theorem calculate_affordability_monotonic:
  assumes "0 \<le> monthly_income" and "monthly_income \<le> higher_income"
    and "0 \<le> existing_debts" and "existing_debts \<le> higher_debts"
  shows "\<exists>price price_more_income price_more_debts.
           max_property_price_of (calculate_affordability monthly_income monthly_expenses
             existing_debts max_dti_ratio) = Inr price
         \<and> max_property_price_of (calculate_affordability higher_income monthly_expenses
             existing_debts max_dti_ratio) = Inr price_more_income
         \<and> max_property_price_of (calculate_affordability monthly_income monthly_expenses
             higher_debts max_dti_ratio) = Inr price_more_debts
         \<and> price \<le> price_more_income \<and> price_more_debts \<le> price"
proof -
  have hi: "0 \<le> higher_income" and hd: "0 \<le> higher_debts" using assms by simp_all
  have debts: "monthly_income * (max_dti_ratio / 100) - higher_debts
      \<le> monthly_income * (max_dti_ratio / 100) - existing_debts"
    using assms(4) by simp
  have income: "(if monthly_income * (max_dti_ratio / 100) - existing_debts \<le> 0 then 0
        else py_round ((monthly_income * (max_dti_ratio / 100) - existing_debts)
                         * loan_multiplier / MAX_LTV_EXPAT) 2)
      \<le> (if higher_income * (max_dti_ratio / 100) - existing_debts \<le> 0 then 0
        else py_round ((higher_income * (max_dti_ratio / 100) - existing_debts)
                         * loan_multiplier / MAX_LTV_EXPAT) 2)"
  proof (cases "0 \<le> max_dti_ratio")
    case True
    then have "monthly_income * (max_dti_ratio / 100) \<le> higher_income * (max_dti_ratio / 100)"
      using assms(2) by (simp add: mult_right_mono)
    then have "monthly_income * (max_dti_ratio / 100) - existing_debts
        \<le> higher_income * (max_dti_ratio / 100) - existing_debts" by simp
    then show ?thesis by (rule price_of_payment_mono)
  next
    case False
    then have "max_dti_ratio / 100 \<le> 0" by simp
    then have "monthly_income * (max_dti_ratio / 100) \<le> 0"
      "higher_income * (max_dti_ratio / 100) \<le> 0"
      using assms(1) hi by (simp_all add: mult_nonneg_nonpos)
    then show ?thesis using assms(3) by simp
  qed
  show ?thesis
    unfolding max_property_price_value [OF assms(1) assms(3)]
      max_property_price_value [OF hi assms(3)] max_property_price_value [OF assms(1) hd]
    using income price_of_payment_mono [OF debts] by simp
qed

theorem calculate_affordability_monotonic_witness:
  "(0::real) \<le> 20000 \<and> (20000::real) \<le> 30000 \<and> (0::real) \<le> 5000 \<and> (5000::real) \<le> 15000
   \<and> (\<exists>price price_more_income price_more_debts.
        max_property_price_of (calculate_affordability 20000 5000 5000 50) = Inr price
      \<and> max_property_price_of (calculate_affordability 30000 5000 5000 50)
          = Inr price_more_income
      \<and> max_property_price_of (calculate_affordability 20000 5000 15000 50) = Inr 0
      \<and> price \<le> price_more_income \<and> 0 \<le> price)"
proof -
  have z: "max_property_price_of (calculate_affordability 20000 5000 15000 50) = Inr 0"
    using max_property_price_value [of 20000 15000 5000 50] by simp
  show ?thesis
    using calculate_affordability_monotonic [of 20000 30000 5000 15000 5000 50] unfolding z
    by simp
qed

lemma calculate_affordability_affordable_iff:
  assumes "result_item (calculate_affordability monthly_income monthly_expenses existing_debts
             max_dti_ratio) ''is_affordable'' = Inr (VBool True)"
  shows "0 < monthly_income * (max_dti_ratio / 100) - existing_debts"
    and "monthly_income \<noteq> 0"
proof -
  show pos: "0 < monthly_income * (max_dti_ratio / 100) - existing_debts"
  proof (rule ccontr)
    assume "\<not> 0 < monthly_income * (max_dti_ratio / 100) - existing_debts"
    then have "monthly_income * (max_dti_ratio / 100) - existing_debts \<le> 0" by simp
    from calculate_affordability_not_affordable [OF this] assms show False
      by (simp add: result_item_def then_do_def getitem_def)
  qed
  show "monthly_income \<noteq> 0"
  proof
    assume z: "monthly_income = 0"
    define r where "r = (DEFAULT_INTEREST_RATE / 100) / 12"
    have r: "0 < r" "r \<le> 1" by (simp_all add: r_def DEFAULT_INTEREST_RATE_def)
    then have mp: "math_pow (1 + r) 300 = Inr (power_int (1 + r) 300)"
      using math_pow_in_range [of "1 + r" 300] by simp
    have nz: "r * power_int (1 + r) 300 \<noteq> 0" using r by simp
    have ltv: "MAX_LTV_EXPAT \<noteq> 0" by (simp add: MAX_LTV_EXPAT_def)
    have e: "\<not> 0 * (max_dti_ratio / 100) - existing_debts \<le> 0" using pos z by simp
    have twelve: "(25::int) * 12 = 300" by simp
    have "calculate_affordability 0 monthly_expenses existing_debts max_dti_ratio
        = Inl ZeroDivisionError"
      unfolding calculate_affordability_def Let_def r_def [symmetric] twelve
      using e nz ltv
      by (simp only: then_do_def mp py_div_def if_False if_True sum.case simp_thms)
    with assms z show False by (simp add: result_item_def then_do_def)
  qed
qed

subsection \<open>The reported ratio in doubles\<close>

lemma default_rate64_bounds:
  "1 / 512 \<le> binary64 (binary64 (binary64 DEFAULT_INTEREST_RATE / 100) / 12)"
  "binary64 (binary64 (binary64 DEFAULT_INTEREST_RATE / 100) / 12) \<le> 1"
proof -
  define a where "a = binary64 DEFAULT_INTEREST_RATE"
  define b where "b = binary64 (a / 100)"
  have a: "4 \<le> a" "a \<le> 8"
    using binary64_ge_pow2 [of 2 DEFAULT_INTEREST_RATE]
      binary64_le_pow2 [of DEFAULT_INTEREST_RATE 3]
    by (simp_all add: a_def DEFAULT_INTEREST_RATE_def)
  have b: "1 / 32 \<le> b" "b \<le> 1 / 8"
    using binary64_ge_pow2 [of "- 5" "a / 100"] binary64_le_pow2 [of "a / 100" "- 3"] a
    by (simp_all add: b_def power_int_minus)
  show "1 / 512 \<le> binary64 (binary64 (binary64 DEFAULT_INTEREST_RATE / 100) / 12)"
    "binary64 (binary64 (binary64 DEFAULT_INTEREST_RATE / 100) / 12) \<le> 1"
    unfolding a_def [symmetric] b_def [symmetric]
    using binary64_ge_pow2 [of "- 9" "b / 12"] binary64_le_pow2 [of "b / 12" 0] b
    by (simp_all add: power_int_minus)
qed

lemma calculate_affordability_binary64_affordable:
  assumes "0 < binary64 (binary64 (monthly_income * binary64 (max_dti_ratio / 100))
                           - existing_debts)"
    and "monthly_income \<noteq> 0"
  shows "result_item (calculate_affordability_binary64 monthly_income monthly_expenses
           existing_debts max_dti_ratio) ''is_affordable'' = Inr (VBool True)"
    and "result_item (calculate_affordability_binary64 monthly_income monthly_expenses
           existing_debts max_dti_ratio) ''dti_ratio'' =
         Inr (VFloat (binary64 (py_round (binary64 (binary64 (binary64
           (binary64 (binary64 (monthly_income * binary64 (max_dti_ratio / 100))
                        - existing_debts) + existing_debts) / monthly_income) * 100)) 1)))"
proof -
  define r where "r = binary64 (binary64 (binary64 DEFAULT_INTEREST_RATE / 100) / 12)"
  define x where "x = binary64 (1 + r)"
  define pw where "pw = binary64 (power_int x 300)"
  define me where "me = binary64 (binary64 (monthly_income * binary64 (max_dti_ratio / 100))
                           - existing_debts)"
  have r: "1 / 512 \<le> r" "r \<le> 1" unfolding r_def by (rule default_rate64_bounds)+
  have x: "1 \<le> x" "x \<le> 2"
    using binary64_ge_pow2 [of 0 "1 + r"] binary64_le_pow2 [of "1 + r" 1] r
    by (simp_all add: x_def)
  have mp: "math_pow x 300 = Inr (power_int x 300)"
    using math_pow_in_range [of x 300] x by simp
  have "1 \<le> x ^ 300" using x(1) by (rule one_le_power)
  then have pw: "1 \<le> pw"
    using binary64_ge_pow2 [of 0 "power_int x 300"] by (simp add: pw_def)
  have "1 / 512 * 1 \<le> r * pw" using r(1) pw by (intro mult_mono) simp_all
  then have den: "binary64 (r * pw) \<noteq> 0"
    using binary64_ge_pow2 [of "- 9" "r * pw"] by (simp add: power_int_minus)
  have ltv: "binary64 MAX_LTV_EXPAT \<noteq> 0"
    using binary64_ge_pow2 [of "- 1" MAX_LTV_EXPAT]
    by (simp add: power_int_minus MAX_LTV_EXPAT_def)
  have me: "\<not> me \<le> 0" using assms(1) by (simp add: me_def)
  have twelve: "(25::int) * 12 = 300" by simp
  have d: "\<exists>a b c e f. calculate_affordability_binary64 monthly_income monthly_expenses
      existing_debts max_dti_ratio =
      Inr [(''is_affordable'', VBool True),
           (''max_emi'', VFloat a),
           (''recommended_emi'', VFloat b),
           (''max_loan_amount'', VFloat c),
           (''max_property_price'', VFloat e),
           (''comfortable_property_price'', VFloat f),
           (''dti_ratio'', VFloat (binary64 (py_round (binary64 (binary64
              (binary64 (me + existing_debts) / monthly_income) * 100)) 1))),
           (''monthly_income'', VFloat monthly_income),
           (''existing_debts'', VFloat existing_debts),
           (''note'', VStr '' Comfortable budget is 70% of maximum to leave room for emergencies.'')]"
    unfolding calculate_affordability_binary64_def Let_def twelve
      r_def [symmetric] x_def [symmetric] me_def [symmetric]
    using me den [unfolded pw_def] ltv assms(2)
    by (simp add: math_pow64_def py_div64_def then_do_def mp py_div_def)
  then show "result_item (calculate_affordability_binary64 monthly_income monthly_expenses
           existing_debts max_dti_ratio) ''is_affordable'' = Inr (VBool True)"
    by (auto simp: result_item_def then_do_def getitem_def)
  from d show "result_item (calculate_affordability_binary64 monthly_income monthly_expenses
           existing_debts max_dti_ratio) ''dti_ratio'' =
         Inr (VFloat (binary64 (py_round (binary64 (binary64 (binary64
           (binary64 (binary64 (monthly_income * binary64 (max_dti_ratio / 100))
                        - existing_debts) + existing_debts) / monthly_income) * 100)) 1)))"
    unfolding me_def by (auto simp: result_item_def then_do_def getitem_def)
qed

text \<open>
  C9 (as stated): whenever the result is affordable, \<open>dti_ratio\<close> equals
  \<open>round(max_dti_ratio, 1)\<close>. In doubles, with income 20000, debts 1000 and a cap of
  50.75, the quotient comes back as 50.74999999999999 and is rounded to 50.7, while
  \<open>round(50.75, 1)\<close> is 50.8.
\<close>

theorem calculate_affordability_dti_counterexample:
  "result_item (calculate_affordability_binary64 20000 0 1000 (203 / 4)) ''is_affordable''
     = Inr (VBool True)
   \<and> result_item (calculate_affordability_binary64 20000 0 1000 (203 / 4)) ''dti_ratio''
       = Inr (VFloat (7135390659615130 / 2 ^ 47))
   \<and> binary64 (507 / 10) = 7135390659615130 / 2 ^ 47
   \<and> binary64 (py_round (203 / 4) 1) = 7149464408450662 / 2 ^ 47"
proof -
  have q1: "binary64 (203 / 4 / 100) = 4571153621781053 / 2 ^ 53"
    using binary64_eqI [of "- 1" "203 / 4 / 100" 4571153621781053]
    by (simp add: power_int_minus)
  have av: "binary64 (20000 * (4571153621781053 / 2 ^ 53)) = 5580021510963199 / 2 ^ 39"
    using binary64_eqI [of 13 "20000 * (4571153621781053 / 2 ^ 53)" 5580021510963199]
    by (simp add: power_int_minus)
  have me: "binary64 (5580021510963199 / 2 ^ 39 - 1000) = 5030265697075199 / 2 ^ 39"
    using binary64_eqI [of 13 "5580021510963199 / 2 ^ 39 - 1000" 5030265697075199]
    by (simp add: power_int_minus)
  have s: "binary64 (5030265697075199 / 2 ^ 39 + 1000) = 5580021510963199 / 2 ^ 39"
    using binary64_eqI [of 13 "5030265697075199 / 2 ^ 39 + 1000" 5580021510963199]
    by (simp add: power_int_minus)
  have q: "binary64 (5580021510963199 / 2 ^ 39 / 20000) = 4571153621781053 / 2 ^ 53"
    using binary64_eqI [of "- 1" "5580021510963199 / 2 ^ 39 / 20000" 4571153621781053]
    by (simp add: power_int_minus)
  have dti: "binary64 (4571153621781053 / 2 ^ 53 * 100) = 7142427534032895 / 2 ^ 47"
    using binary64_eqI [of 5 "4571153621781053 / 2 ^ 53 * 100" 7142427534032895]
    by (simp add: power_int_minus)
  have rd: "py_round (7142427534032895 / 2 ^ 47) 1 = 507 / 10"
    using py_round_eqI [of 507 "7142427534032895 / 2 ^ 47" 1] by simp
  have ent: "binary64 (507 / 10) = 7135390659615130 / 2 ^ 47"
    using binary64_eqI [of 5 "507 / 10" 7135390659615130]
    by (simp add: power_int_minus)
  have cl: "py_round (203 / 4) 1 = 254 / 5"
    by (simp add: py_round_def round_half_even_def)
  have clv: "binary64 (254 / 5) = 7149464408450662 / 2 ^ 47"
    using binary64_eqI [of 5 "254 / 5" 7149464408450662]
    by (simp add: power_int_minus)
  have pos: "0 < binary64 (binary64 (20000 * binary64 (203 / 4 / 100)) - 1000)"
    by (simp only: q1 av me) simp
  have nz: "(20000::real) \<noteq> 0" by simp
  note a = calculate_affordability_binary64_affordable [OF pos nz, of 0]
  have d: "result_item (calculate_affordability_binary64 20000 0 1000 (203 / 4)) ''dti_ratio''
       = Inr (VFloat (7135390659615130 / 2 ^ 47))"
    using a(2) by (simp only: q1 av me s q dti rd ent)
  show ?thesis by (intro conjI a(1) d ent) (simp only: cl clv)
qed

text \<open>
  C9 (amended): whenever the result says \<open>is_affordable = True\<close>, for debts that are not
  negative and an income and a cap of ordinary magnitude, the reported \<open>dti_ratio\<close> is
  the ratio cap to one decimal: within 0.05, and one part in \<open>10\<^sup>9\<close> for the double
  arithmetic, of the cap, whatever the income and the debts; under the default cap of 50
  it is 50.0.
\<close>

theorem calculate_affordability_dti_near_cap:
  assumes "0 \<le> existing_debts"
    and "1 / 10 ^ 300 \<le> \<bar>monthly_income\<bar>" and "\<bar>monthly_income\<bar> \<le> 10 ^ 150"
    and "\<bar>max_dti_ratio\<bar> \<le> 10 ^ 150"
    and "result_item (calculate_affordability monthly_income monthly_expenses existing_debts
           max_dti_ratio) ''is_affordable'' = Inr (VBool True)"
  shows "\<exists>dti. result_item (calculate_affordability monthly_income monthly_expenses
                  existing_debts max_dti_ratio) ''dti_ratio'' = Inr (VFloat dti)
             \<and> \<bar>dti - max_dti_ratio\<bar> \<le> 5 / 100 + \<bar>max_dti_ratio\<bar> / 10 ^ 9
             \<and> (max_dti_ratio = 50 \<longrightarrow> dti = 50)"
proof -
  note p = calculate_affordability_affordable_iff [OF assms(5)]
  have item: "result_item (calculate_affordability monthly_income monthly_expenses
      existing_debts max_dti_ratio) ''dti_ratio'' = Inr (VFloat (py_round max_dti_ratio 1))"
    using calculate_affordability_affordable [OF p]
    by (simp add: Let_def result_item_def then_do_def getitem_def)
  have "\<bar>py_round max_dti_ratio 1 - max_dti_ratio\<bar> \<le> 5 / 100"
    using py_round_error [of max_dti_ratio 1] by simp
  moreover have "0 \<le> \<bar>max_dti_ratio\<bar> / 10 ^ 9" by simp
  ultimately have near: "\<bar>py_round max_dti_ratio 1 - max_dti_ratio\<bar>
      \<le> 5 / 100 + \<bar>max_dti_ratio\<bar> / 10 ^ 9"
    by linarith
  have "py_round 50 1 = 50" using py_round_of_int [of 50 1] by simp
  then have fifty: "max_dti_ratio = 50 \<longrightarrow> py_round max_dti_ratio 1 = 50" by simp
  from item near fifty show ?thesis by blast
qed

theorem calculate_affordability_dti_near_cap_witness:
  "(0::real) \<le> 5000 \<and> 1 / 10 ^ 300 \<le> \<bar>40000::real\<bar> \<and> \<bar>40000::real\<bar> \<le> 10 ^ 150
   \<and> \<bar>50::real\<bar> \<le> 10 ^ 150
   \<and> result_item (calculate_affordability 40000 0 5000 50) ''is_affordable'' = Inr (VBool True)
   \<and> (\<exists>dti. result_item (calculate_affordability 40000 0 5000 50) ''dti_ratio''
               = Inr (VFloat dti)
           \<and> \<bar>dti - 50\<bar> \<le> 5 / 100 + \<bar>50\<bar> / 10 ^ 9
           \<and> (50 = (50::real) \<longrightarrow> dti = 50))"
proof -
  have h: "(0::real) \<le> 5000" "1 / 10 ^ 300 \<le> \<bar>40000::real\<bar>" "\<bar>40000::real\<bar> \<le> 10 ^ 150"
    "\<bar>50::real\<bar> \<le> 10 ^ 150"
    by simp_all
  have a: "result_item (calculate_affordability 40000 0 5000 50) ''is_affordable''
      = Inr (VBool True)"
    using calculate_affordability_affordable [of 40000 50 5000 0]
    by (simp add: Let_def result_item_def then_do_def getitem_def)
  note c = calculate_affordability_dti_near_cap [OF h a]
  show ?thesis by (intro conjI h a c)
qed

section \<open>The eligibility validator: issues, warnings and the nationality test\<close>

lemma format_min_income:
  "format_int_comma 15000 = ''15,000''" "format_int_comma 10000 = ''10,000''"
  by (simp_all add: format_int_comma_def comma_grouped_def str_nat.simps digit_char_def)

lemmas eligibility_defs =
  validate_user_eligibility_def MAX_LTV_EXPAT_def MAX_LTV_UAE_NATIONAL_def

text \<open>
  C8: \<open>is_eligible\<close> is true exactly when the list of issues is empty. An income below
  15,000 (expat) or 10,000 (national) adds the income issue, a self-employed or
  business-owner expat with less than two years adds the residency issue, and
  \<open>is_eligible\<close> depends on these two conditions only, so the warnings do not change it.
  An expat with 10,000 income, salaried, one year in the country, is not eligible.
\<close>

theorem validate_user_eligibility_issues:
  "let res = validate_user_eligibility nationality monthly_income employment_type years_in_uae;
       is_expat = (lower nationality \<noteq> ''uae_national'');
       income_issue = (monthly_income < (if is_expat then 15000 else 10000));
       self_employed = (employment_type = ''self_employed'' \<or> employment_type = ''business_owner'');
       residency_issue = (self_employed \<and> is_expat \<and> years_in_uae < 2);
       issues =
         (if income_issue
          then [VStr (''Most banks require minimum income of '' @
                      (if is_expat then ''15,000'' else ''10,000'') @ '' AED/month'')]
          else []) @
         (if residency_issue
          then [VStr ''Self-employed expats typically need 2+ years in UAE'']
          else []);
       warnings =
         (if self_employed
          then [VStr ''Self-employed applicants may face stricter documentation requirements (2+ years of audited accounts)'']
          else []) @
         (if is_expat \<and> years_in_uae < 1 / 2
          then [VStr ''Some banks require 6+ months UAE residency'']
          else [])
   in getitem res ''issues'' = Inr (VList issues)
    \<and> getitem res ''warnings'' = Inr (VList warnings)
    \<and> getitem res ''is_eligible'' = Inr (VBool (issues = []))
    \<and> getitem res ''is_eligible'' = Inr (VBool (\<not> income_issue \<and> \<not> residency_issue))
    \<and> getitem (validate_user_eligibility ''expat'' 10000 ''salaried'' 1) ''is_eligible''
         = Inr (VBool False)"
proof -
  have scenario: "getitem (validate_user_eligibility ''expat'' 10000 ''salaried'' 1)
      ''is_eligible'' = Inr (VBool False)"
    unfolding eligibility_defs Let_def
    by (simp add: getitem_def lower_def lower_char_def format_min_income)
  show ?thesis
    unfolding Let_def using scenario
    unfolding eligibility_defs Let_def
    by (simp add: getitem_def format_min_income)
qed

text \<open>
  C10: a nationality whose lower-case form is not \<open>uae_national\<close> is treated as an
  expat, whatever it is: the result is the one for \<open>expat\<close>, with type Expat, 80 percent
  maximum LTV, a minimum down payment of 20 percent (as a double, to within a thousandth),
  the 15,000 income floor and both expat residency checks. The call returns a result and
  rejects nothing.
\<close>

theorem validate_user_eligibility_default_expat:
  assumes "lower nationality \<noteq> ''uae_national''"
  shows "let res = validate_user_eligibility nationality monthly_income employment_type
                     years_in_uae
         in res = validate_user_eligibility ''expat'' monthly_income employment_type years_in_uae
          \<and> getitem res ''nationality_type'' = Inr (VStr ''Expat'')
          \<and> getitem res ''max_ltv'' = Inr (VFloat 80)
          \<and> (\<exists>m. getitem res ''min_down_payment_percent'' = Inr (VFloat m)
                \<and> \<bar>m - 20\<bar> \<le> 1 / 1000)
          \<and> (\<exists>issues warnings.
                getitem res ''issues'' = Inr (VList issues)
              \<and> getitem res ''warnings'' = Inr (VList warnings)
              \<and> (VStr ''Most banks require minimum income of 15,000 AED/month'' \<in> set issues
                   \<longleftrightarrow> monthly_income < 15000)
              \<and> (VStr ''Self-employed expats typically need 2+ years in UAE'' \<in> set issues
                   \<longleftrightarrow> (employment_type = ''self_employed'' \<or> employment_type = ''business_owner'')
                        \<and> years_in_uae < 2)
              \<and> (VStr ''Some banks require 6+ months UAE residency'' \<in> set warnings
                   \<longleftrightarrow> years_in_uae < 1 / 2))"
proof -
  have e: "lower ''expat'' \<noteq> ''uae_national''" by (simp add: lower_def lower_char_def)
  show ?thesis
    unfolding eligibility_defs Let_def using assms e
    by (simp add: getitem_def format_min_income)
qed

theorem validate_user_eligibility_default_expat_witness:
  "lower ''Emirati'' \<noteq> ''uae_national''
   \<and> validate_user_eligibility ''Emirati'' 12000 ''salaried'' 3
       = validate_user_eligibility ''expat'' 12000 ''salaried'' 3
   \<and> getitem (validate_user_eligibility ''Emirati'' 12000 ''salaried'' 3) ''is_eligible''
       = Inr (VBool False)
   \<and> getitem (validate_user_eligibility ''Emirati'' 12000 ''salaried'' 3) ''max_ltv''
       = Inr (VFloat 80)
   \<and> getitem (validate_user_eligibility ''uae_national'' 12000 ''salaried'' 3) ''is_eligible''
       = Inr (VBool True)"
proof -
  have h: "lower ''Emirati'' \<noteq> ''uae_national''" by (simp add: lower_def lower_char_def)
  have n: "getitem (validate_user_eligibility ''uae_national'' 12000 ''salaried'' 3)
      ''is_eligible'' = Inr (VBool True)"
    unfolding eligibility_defs Let_def
    by (simp add: getitem_def lower_def lower_char_def format_min_income)
  have x: "getitem (validate_user_eligibility ''expat'' 12000 ''salaried'' 3)
      ''is_eligible'' = Inr (VBool False)"
    unfolding eligibility_defs Let_def
    by (simp add: getitem_def lower_def lower_char_def format_min_income)
  note t = validate_user_eligibility_default_expat [OF h, of 12000 "''salaried''" 3,
      unfolded Let_def]
  have eq: "validate_user_eligibility ''Emirati'' 12000 ''salaried'' 3
      = validate_user_eligibility ''expat'' 12000 ''salaried'' 3"
    using t by (rule conjunct1)
  have ltv: "getitem (validate_user_eligibility ''Emirati'' 12000 ''salaried'' 3) ''max_ltv''
      = Inr (VFloat 80)"
    using t by blast
  have el: "getitem (validate_user_eligibility ''Emirati'' 12000 ''salaried'' 3)
      ''is_eligible'' = Inr (VBool False)"
    unfolding eq by (rule x)
  show ?thesis by (intro conjI h eq el ltv n)
qed

section \<open>The buy-versus-rent analyzer: the recommendation and the break-even division\<close>

lemma recommendation_of_spec: "recommendation_of years s = spec_recommendation years s"
  unfolding recommendation_of_def spec_recommendation_def by simp

lemma calculate_upfront_costs_shape:
  "\<exists>a b c d1 d2 d3 f g w.
     calculate_upfront_costs p dp =
       [(''property_price'', VFloat a),
        (''down_payment'', VFloat b),
        (''down_payment_percent'', VFloat c),
        (''transfer_fee'', VFloat d1),
        (''transfer_fee_label'', VStr ''4.0% (Dubai Land Dept)''),
        (''agency_fee'', VFloat d2),
        (''agency_fee_label'', VStr ''2.0% (Agent Commission)''),
        (''misc_fees'', VFloat d3),
        (''misc_fees_label'', VStr ''1.0% (Valuation, Registration)''),
        (''total_fees'', VFloat f),
        (''total_fees_percent'', VFloat TOTAL_UPFRONT_COSTS_PERCENT),
        (''total_cash_needed'', VFloat g),
        (''warning'', VStr w)]"
  unfolding calculate_upfront_costs_def Let_def by blast

text \<open>
  C6: the branches of the code are the recommendation policy of the specification
  (\<open>recommendation_of_spec\<close>), but the recommendation is only reached after the
  break-even estimate, whose \<^verbatim>\<open>else\<close> branch divides without a guard. For a stay of two
  years, where the policy says RENT, with a price of 800,000 paid down in full and a rent
  of 1,000, equal to the monthly maintenance, the divisor is zero: the call raises
  \<^verbatim>\<open>ZeroDivisionError\<close> and returns no recommendation.
\<close>

theorem analyze_buy_vs_rent_unguarded_division:
  "analyze_buy_vs_rent 800000 1000 2 100 (45 / 10) 3 5 = Inl ZeroDivisionError"
proof -
  have m: "max (100::real) 20 = 100" "min (2::int) 25 = 2" by simp_all
  have t: "(2::int) \<noteq> 0" by simp
  have fin: "\<bar>power_int (1 + 45 / 10 / 100 / 12) (min 2 25 * 12)\<bar> < double_overflow"
    using power_int_in_range [of "1 + 45 / 10 / 100 / 12" "min 2 25 * 12"] by simp
  have e: "calculate_emi 800000 100 (45 / 10) 2 =
     Inr [(''monthly_emi'', VFloat 0),
          (''total_payment'', VFloat 0),
          (''total_interest'', VFloat 0),
          (''loan_amount'', VFloat 0),
          (''down_payment'', VFloat 800000),
          (''tenure_months'', VInt 24),
          (''tenure_years'', VInt 2),
          (''interest_rate'', VFloat (45 / 10)),
          (''property_price'', VFloat 800000)]"
    unfolding calculate_emi_value [OF t fin] Let_def
    using py_round_of_int [of 800000 2] by simp
  have g: "math_pow (1 + 3 / 100) 2 = Inr (power_int (1 + 3 / 100) 2)"
    using math_pow_in_range [of "1 + 3 / 100" 2] by simp
  have z: "fst (amortize k 0 r 0 0) = 0" for k r
  proof -
    have "amortize k 0 r 0 0 = (0, 0)" by (induction k) simp_all
    then show ?thesis by simp
  qed
  from calculate_upfront_costs_shape [of 800000 100]
  obtain a b c d1 d2 d3 f g' w where up:
    "calculate_upfront_costs 800000 100 =
       [(''property_price'', VFloat a),
        (''down_payment'', VFloat b),
        (''down_payment_percent'', VFloat c),
        (''transfer_fee'', VFloat d1),
        (''transfer_fee_label'', VStr ''4.0% (Dubai Land Dept)''),
        (''agency_fee'', VFloat d2),
        (''agency_fee_label'', VStr ''2.0% (Agent Commission)''),
        (''misc_fees'', VFloat d3),
        (''misc_fees_label'', VStr ''1.0% (Valuation, Registration)''),
        (''total_fees'', VFloat f),
        (''total_fees_percent'', VFloat TOTAL_UPFRONT_COSTS_PERCENT),
        (''total_cash_needed'', VFloat g'),
        (''warning'', VStr w)]"
    by blast
  show ?thesis
    unfolding analyze_buy_vs_rent_def buy_vs_rent_figures_def Let_def m e up g
    by (simp add: z then_do_def getitem_def num_of_def int_of_def
        break_even_years_def py_div_def MAINTENANCE_FEE_PERCENT_def)
qed

end
